theory Spec2Isabelle
  imports Complex_Main "HOL-Library.AList" "HOL-Library.Sublist"
begin

section \<open>Data model of \<open>api/vllm_routes/completion.py\<close>\<close>

text \<open>
  A Python \<open>str\<close> is a sequence of Unicode code points and \<open>len\<close> counts code points,
  so a string is modelled as a list of code points. The replacement character the source
  strips from generated text is the single code point U+FFFD.
\<close>

type_synonym pystr = "nat list"

definition py :: "string \<Rightarrow> pystr" where
  "py s = map of_char s"

definition REPLACEMENT_CHARACTER :: nat where
  "REPLACEMENT_CHARACTER = 65533"

text \<open>\<open>text.replace("\<dots>", "")\<close> with the one-character pattern U+FFFD.\<close>

definition strip_replacement :: "pystr \<Rightarrow> pystr" where
  "strip_replacement s = filter (\<lambda>c. c \<noteq> REPLACEMENT_CHARACTER) s"

text \<open>
  The exceptions the module can raise: \<open>KeyError\<close> from a dictionary subscript (with the
  missing key), \<open>TypeError\<close> from iterating or subscripting \<open>None\<close>, \<open>IndexError\<close> from a
  list subscript out of range, \<open>AssertionError\<close> from \<open>assert\<close>, \<open>ValidationError\<close> from
  the constructor of a response type given a value its declaration does not allow, and
  the \<open>HTTPException\<close> (status code, detail) the endpoint raises itself.
\<close>

datatype py_error =
    KeyError int
  | TypeError
  | IndexError
  | AssertionError
  | ValidationError
  | HTTPException nat pystr

text \<open>
  The tokenizer is an external collaborator; only \<open>convert_ids_to_tokens\<close> is used, on
  one id at a time.
\<close>

type_synonym tokenizer = "int \<Rightarrow> pystr"

text \<open>
  \<open>Dict[int, float]\<close>: the items of the dictionary in iteration order. Log-probabilities
  are only copied, never computed with.
\<close>

type_synonym id_logprob = "(int \<times> real) list"

text \<open>\<open>openai.types.completion_choice.Logprobs\<close>, with the four lists the source fills.\<close>

record Logprobs =
  text_offset :: "int list"
  token_logprobs :: "real list"
  tokens :: "pystr list"
  top_logprobs :: "(pystr \<times> real) list list"

text \<open>\<open>vllm.outputs.CompletionOutput\<close> and \<open>RequestOutput\<close>, with the fields the source reads
  (\<open>output.index\<close>, \<open>output.text\<close>, \<open>output.token_ids\<close>, \<open>output.logprobs\<close>,
  \<open>output.finish_reason\<close>; \<open>res.prompt_token_ids\<close>, \<open>res.outputs\<close>). The engine leaves
  \<open>output.logprobs\<close> as \<open>None\<close> when it computed none.\<close>

record CompletionOutput =
  output_index :: int
  output_text :: pystr
  output_token_ids :: "int list"
  output_logprobs :: "id_logprob list option"
  output_finish_reason :: "pystr option"

record RequestOutput =
  prompt_token_ids :: "int list"
  outputs :: "CompletionOutput list"

section \<open>\<open>create_logprobs\<close>\<close>

definition empty_Logprobs :: Logprobs where
  "empty_Logprobs = \<lparr>text_offset = [], token_logprobs = [], tokens = [], top_logprobs = []\<rparr>"

text \<open>
  The dictionary comprehension \<open>{tokenizer.convert_ids_to_tokens(i): p for i, p in
  id_logprob.items()}\<close>: a later item with the same token text overwrites the value and
  keeps the position of the first.
\<close>

definition top_logprob_dict :: "tokenizer \<Rightarrow> id_logprob \<Rightarrow> (pystr \<times> real) list" where
  "top_logprob_dict tokenizer id_logprob =
     fold (\<lambda>(i, p) d. AList.update (tokenizer i) p d) id_logprob []"

text \<open>
  One iteration of the \<open>for token_id, id_logprob in zip(token_ids, id_logprobs)\<close> loop. The
  loop state is the record built so far and \<open>last_token_len\<close>. The subscript
  \<open>id_logprob[token_id]\<close> raises \<open>KeyError\<close> when the chosen id is not a key; the token
  has been appended by then, but the record is lost with the exception.
\<close>

definition create_logprobs_body ::
  "tokenizer \<Rightarrow> int \<Rightarrow> int \<Rightarrow> id_logprob \<Rightarrow> Logprobs \<Rightarrow> nat \<Rightarrow> py_error + (Logprobs \<times> nat)"
where
  "create_logprobs_body tokenizer initial_text_offset token_id id_logprob lp last_token_len =
     (let token = tokenizer token_id;
          lp1 = lp\<lparr>tokens := tokens lp @ [token]\<rparr>
      in case map_of id_logprob token_id of
           None \<Rightarrow> Inl (KeyError token_id)
         | Some p \<Rightarrow>
             (let lp2 = lp1\<lparr>token_logprobs := token_logprobs lp1 @ [p]\<rparr>;
                  lp3 = (if length (text_offset lp2) = 0
                         then lp2\<lparr>text_offset := text_offset lp2 @ [initial_text_offset]\<rparr>
                         else lp2\<lparr>text_offset := text_offset lp2 @
                                [last (text_offset lp2) + int last_token_len]\<rparr>);
                  last_token_len' = length token;
                  lp4 = lp3\<lparr>top_logprobs := top_logprobs lp3 @
                                [top_logprob_dict tokenizer id_logprob]\<rparr>
              in Inr (lp4, last_token_len')))"

fun create_logprobs_loop ::
  "tokenizer \<Rightarrow> int \<Rightarrow> (int \<times> id_logprob) list \<Rightarrow> Logprobs \<Rightarrow> nat \<Rightarrow> py_error + Logprobs"
where
  "create_logprobs_loop tokenizer initial_text_offset [] lp last_token_len = Inr lp"
| "create_logprobs_loop tokenizer initial_text_offset ((token_id, id_logprob) # rest) lp last_token_len =
     (case create_logprobs_body tokenizer initial_text_offset token_id id_logprob lp last_token_len of
        Inl e \<Rightarrow> Inl e
      | Inr (lp', last_token_len') \<Rightarrow>
          create_logprobs_loop tokenizer initial_text_offset rest lp' last_token_len')"

definition create_logprobs ::
  "tokenizer \<Rightarrow> int list \<Rightarrow> id_logprob list \<Rightarrow> int \<Rightarrow> py_error + Logprobs"
where
  "create_logprobs tokenizer token_ids id_logprobs initial_text_offset =
     create_logprobs_loop tokenizer initial_text_offset (zip token_ids id_logprobs) empty_Logprobs 0"

subsection \<open>The same function with its effects written out\<close>

text \<open>
  \<open>create_logprobs\<close> creates one \<open>Logprobs\<close> object, appends to the four lists of that object
  and of no other, calls \<open>tokenizer.convert_ids_to_tokens\<close>, and reads its arguments. Here
  the objects live in a heap: the \<open>Logprobs\<close> objects created so far, the address of an
  object being its position, and the ids \<open>convert_ids_to_tokens\<close> has been called with so
  far, oldest first. The function takes the heap and returns the address of its record (or
  the exception) and the heap it leaves.
\<close>

record builder_heap =
  logprobs_objects :: "Logprobs list"
  tokenizer_calls :: "int list"

definition update_object :: "nat \<Rightarrow> (Logprobs \<Rightarrow> Logprobs) \<Rightarrow> builder_heap \<Rightarrow> builder_heap" where
  "update_object a f h =
     h\<lparr>logprobs_objects := (logprobs_objects h)[a := f (logprobs_objects h ! a)]\<rparr>"

text \<open>
  One iteration of the loop on the object at address \<open>a\<close>, statement by statement. The
  dictionary comprehension calls the tokenizer once for every key, in the order of the
  items.
\<close>

definition create_logprobs_body_on ::
  "tokenizer \<Rightarrow> int \<Rightarrow> nat \<Rightarrow> int \<Rightarrow> id_logprob \<Rightarrow> nat \<Rightarrow> builder_heap \<Rightarrow>
   (py_error + nat) \<times> builder_heap"
where
  "create_logprobs_body_on tokenizer initial_text_offset a token_id id_logprob last_token_len h =
     (let token = tokenizer token_id;
          h1 = h\<lparr>tokenizer_calls := tokenizer_calls h @ [token_id]\<rparr>;
          h2 = update_object a (\<lambda>lp. lp\<lparr>tokens := tokens lp @ [token]\<rparr>) h1
      in case map_of id_logprob token_id of
           None \<Rightarrow> (Inl (KeyError token_id), h2)
         | Some p \<Rightarrow>
             (let h3 = update_object a (\<lambda>lp. lp\<lparr>token_logprobs := token_logprobs lp @ [p]\<rparr>) h2;
                  h4 = (if length (text_offset (logprobs_objects h3 ! a)) = 0
                        then update_object a
                               (\<lambda>lp. lp\<lparr>text_offset := text_offset lp @ [initial_text_offset]\<rparr>) h3
                        else update_object a
                               (\<lambda>lp. lp\<lparr>text_offset := text_offset lp @
                                         [last (text_offset lp) + int last_token_len]\<rparr>) h3);
                  last_token_len' = length token;
                  h5 = h4\<lparr>tokenizer_calls := tokenizer_calls h4 @ map fst id_logprob\<rparr>;
                  h6 = update_object a
                         (\<lambda>lp. lp\<lparr>top_logprobs := top_logprobs lp @
                                   [top_logprob_dict tokenizer id_logprob]\<rparr>) h5
              in (Inr last_token_len', h6)))"

fun create_logprobs_loop_on ::
  "tokenizer \<Rightarrow> int \<Rightarrow> nat \<Rightarrow> (int \<times> id_logprob) list \<Rightarrow> nat \<Rightarrow> builder_heap \<Rightarrow>
   (py_error + unit) \<times> builder_heap"
where
  "create_logprobs_loop_on tokenizer initial_text_offset a [] last_token_len h = (Inr (), h)"
| "create_logprobs_loop_on tokenizer initial_text_offset a ((token_id, id_logprob) # rest) last_token_len h =
     (case create_logprobs_body_on tokenizer initial_text_offset a token_id id_logprob last_token_len h of
        (Inl e, h') \<Rightarrow> (Inl e, h')
      | (Inr last_token_len', h') \<Rightarrow>
          create_logprobs_loop_on tokenizer initial_text_offset a rest last_token_len' h')"

definition create_logprobs_on ::
  "tokenizer \<Rightarrow> int list \<Rightarrow> id_logprob list \<Rightarrow> int \<Rightarrow> builder_heap \<Rightarrow>
   (py_error + nat) \<times> builder_heap"
where
  "create_logprobs_on tokenizer token_ids id_logprobs initial_text_offset h =
     (let a = length (logprobs_objects h);
          h0 = h\<lparr>logprobs_objects := logprobs_objects h @ [empty_Logprobs]\<rparr>
      in case create_logprobs_loop_on tokenizer initial_text_offset a (zip token_ids id_logprobs) 0 h0 of
           (Inl e, h') \<Rightarrow> (Inl e, h')
         | (Inr u, h') \<Rightarrow> (Inr a, h'))"

section \<open>The response types\<close>

text \<open>
  \<open>openai.types\<close>: \<open>CompletionUsage\<close>, \<open>CompletionChoice\<close> and \<open>Completion\<close>, with the fields
  the source passes. A field the source does not pass keeps its default \<open>None\<close>
  (\<open>usage\<close> of a streamed chunk). Values are stored as passed.
\<close>

record CompletionUsage =
  prompt_tokens :: nat
  completion_tokens :: nat
  total_tokens :: nat

record CompletionChoice =
  choice_index :: int
  choice_text :: pystr
  choice_finish_reason :: "pystr option"
  choice_logprobs :: "Logprobs option"

record Completion =
  completion_id :: pystr
  completion_choices :: "CompletionChoice list"
  completion_created :: int
  completion_model :: pystr
  completion_object :: pystr
  completion_usage :: "CompletionUsage option"

text \<open>
  \<open>CompletionChoice\<close> declares \<open>finish_reason\<close> as one of the literals \<open>"stop"\<close>, \<open>"length"\<close>
  and \<open>"content_filter"\<close>, without a default: its constructor raises \<open>ValidationError\<close> for
  \<open>None\<close> and for any other string. The other values the source passes are of the
  declared types.
\<close>

definition valid_finish_reason :: "pystr option \<Rightarrow> bool" where
  "valid_finish_reason r \<longleftrightarrow>
     r = Some (py ''stop'') \<or> r = Some (py ''length'') \<or> r = Some (py ''content_filter'')"

section \<open>Serialization\<close>

text \<open>
  \<open>model_dump_json\<close> of pydantic, up to the JSON value it encodes: an object with the
  fields in declaration order. A field whose value is \<open>None\<close> is written as \<open>null\<close>, or
  left out altogether under \<open>exclude_none=True\<close>; the option applies to nested models too.

  The source pins no release of \<open>openai\<close>. \<open>Completion\<close> declares \<open>id\<close>, \<open>choices\<close>,
  \<open>created\<close>, \<open>model\<close>, \<open>object\<close> and \<open>usage\<close> in every release; later releases declare
  optional members between \<open>object\<close> and \<open>usage\<close> (\<open>system_fingerprint\<close>), which the source
  never passes and which therefore are \<open>None\<close>. Their names, in declaration order, are the
  parameter \<open>unset\<close>: empty for release 1.0.0, \<open>["system_fingerprint"]\<close> for the later ones.
\<close>

datatype json =
    JNull
  | JInt int
  | JNumber real
  | JString pystr
  | JArray "json list"
  | JObject "(pystr \<times> json) list"

definition dump_fields :: "bool \<Rightarrow> (pystr \<times> json option) list \<Rightarrow> json" where
  "dump_fields exclude_none fs =
     JObject (concat (map (\<lambda>(k, v). case v of
                                      Some j \<Rightarrow> [(k, j)]
                                    | None \<Rightarrow> if exclude_none then [] else [(k, JNull)]) fs))"

definition dump_Logprobs :: "bool \<Rightarrow> Logprobs \<Rightarrow> json" where
  "dump_Logprobs exclude_none lp =
     dump_fields exclude_none
       [(py ''text_offset'', Some (JArray (map JInt (text_offset lp)))),
        (py ''token_logprobs'', Some (JArray (map JNumber (token_logprobs lp)))),
        (py ''tokens'', Some (JArray (map JString (tokens lp)))),
        (py ''top_logprobs'',
           Some (JArray (map (\<lambda>d. JObject (map (\<lambda>(k, p). (k, JNumber p)) d)) (top_logprobs lp))))]"

definition dump_CompletionChoice :: "bool \<Rightarrow> CompletionChoice \<Rightarrow> json" where
  "dump_CompletionChoice exclude_none c =
     dump_fields exclude_none
       [(py ''finish_reason'', map_option JString (choice_finish_reason c)),
        (py ''index'', Some (JInt (choice_index c))),
        (py ''logprobs'', map_option (dump_Logprobs exclude_none) (choice_logprobs c)),
        (py ''text'', Some (JString (choice_text c)))]"

definition dump_CompletionUsage :: "bool \<Rightarrow> CompletionUsage \<Rightarrow> json" where
  "dump_CompletionUsage exclude_none u =
     dump_fields exclude_none
       [(py ''completion_tokens'', Some (JInt (int (completion_tokens u)))),
        (py ''prompt_tokens'', Some (JInt (int (prompt_tokens u)))),
        (py ''total_tokens'', Some (JInt (int (total_tokens u))))]"

definition model_dump_json :: "pystr list \<Rightarrow> bool \<Rightarrow> Completion \<Rightarrow> json" where
  "model_dump_json unset exclude_none c =
     dump_fields exclude_none
       ([(py ''id'', Some (JString (completion_id c))),
         (py ''choices'', Some (JArray (map (dump_CompletionChoice exclude_none) (completion_choices c)))),
         (py ''created'', Some (JInt (completion_created c))),
         (py ''model'', Some (JString (completion_model c))),
         (py ''object'', Some (JString (completion_object c)))] @
        map (\<lambda>name. (name, None)) unset @
        [(py ''usage'', map_option (dump_CompletionUsage exclude_none) (completion_usage c))])"

section \<open>The request\<close>

text \<open>
  \<open>CompletionCreateParams\<close>, with the fields the endpoint reads. \<open>request.suffix\<close> is
  \<open>None\<close> or a string, \<open>request.logprobs\<close> and \<open>request.max_tokens\<close> are \<open>None\<close> or an
  integer, and \<open>request.prompt\<close> is a string or token ids.
\<close>

datatype prompt = PromptStr pystr | PromptTokenIds "int list"

record CompletionCreateParams =
  request_echo :: bool
  request_suffix :: "pystr option"
  request_max_tokens :: "int option"
  request_prompt :: prompt
  request_n :: int
  request_presence_penalty :: real
  request_frequency_penalty :: real
  request_temperature :: real
  request_top_p :: real
  request_stop :: "pystr list"
  request_stream :: bool
  request_logprobs :: "int option"
  request_model :: pystr

record SamplingParams =
  sampling_n :: int
  sampling_presence_penalty :: real
  sampling_frequency_penalty :: real
  sampling_temperature :: real
  sampling_top_p :: real
  sampling_stop :: "pystr list"
  sampling_stop_token_ids :: "int list"
  sampling_max_tokens :: "int option"

section \<open>\<open>generate_completion_stream_generator\<close>\<close>

text \<open>
  A Python list subscript \<open>xs[i]\<close>: a negative index counts from the end, and an index
  out of range raises \<open>IndexError\<close>. The result is the position read or written.
\<close>

definition list_position :: "'a list \<Rightarrow> int \<Rightarrow> nat option" where
  "list_position xs i =
     (let n = int (length xs); j = (if i < 0 then n + i else i)
      in if 0 \<le> j \<and> j < n then Some (nat j) else None)"

text \<open>
  What the generator yields: \<open>chunk.model_dump_json()\<close> or
  \<open>chunk.model_dump_json(exclude_none=True)\<close>, kept as the chunk and the option.
\<close>

record yielded =
  chunk :: Completion
  exclude_none :: bool

text \<open>
  The state of the generator: \<open>previous_texts\<close>, \<open>previous_num_tokens\<close>, and how many
  times the clock has been read (\<open>int(time.time())\<close>, once for every chunk built).
\<close>

record stream_state =
  previous_texts :: "pystr list"
  previous_num_tokens :: "nat list"
  clock_reads :: nat

text \<open>
  The body of \<open>for output in res.outputs\<close>. Every exception of the body is raised before
  its first \<open>yield\<close>: the subscripts \<open>previous_texts[i]\<close> and \<open>previous_num_tokens[i]\<close>, the
  slice of \<open>output.logprobs\<close> when it is \<open>None\<close>, and \<open>create_logprobs\<close>. Both lists have
  \<open>request.n\<close> entries from the start to the end of the generator.
\<close>

definition stream_output ::
  "tokenizer \<Rightarrow> CompletionCreateParams \<Rightarrow> pystr \<Rightarrow> (nat \<Rightarrow> int) \<Rightarrow> stream_state \<Rightarrow>
   CompletionOutput \<Rightarrow> py_error + (yielded list \<times> stream_state)"
where
  "stream_output tokenizer request request_id time st output =
     (let i = output_index output;
          output_text' = strip_replacement (output_text output)
      in case list_position (previous_texts st) i of
           None \<Rightarrow> Inl IndexError
         | Some slot \<Rightarrow>
        (case list_position (previous_num_tokens st) i of
           None \<Rightarrow> Inl IndexError
         | Some slot' \<Rightarrow>
             (let delta_text = drop (length (previous_texts st ! slot)) output_text'
              in case (if request_logprobs request \<noteq> None
                       then (case output_logprobs output of
                               None \<Rightarrow> Inl TypeError
                             | Some id_logprobs \<Rightarrow>
                                 map_sum id Some
                                   (create_logprobs tokenizer
                                      (drop (previous_num_tokens st ! slot') (output_token_ids output))
                                      (drop (previous_num_tokens st ! slot') id_logprobs)
                                      (int (length (previous_texts st ! slot)))))
                       else Inr None) of
                   Inl e \<Rightarrow> Inl e
                 | Inr logprobs \<Rightarrow>
                     (let st1 = st\<lparr>previous_texts := (previous_texts st)[slot := output_text']\<rparr>;
                          st2 = st1\<lparr>previous_num_tokens :=
                                  (previous_num_tokens st1)[slot' := length (output_token_ids output)]\<rparr>;
                          choice = \<lparr>choice_index = i, choice_text = delta_text,
                                    choice_finish_reason = Some (py ''stop''),
                                    choice_logprobs = logprobs\<rparr>;
                          chunk1 = \<lparr>completion_id = request_id, completion_choices = [choice],
                                    completion_created = time (clock_reads st2),
                                    completion_model = request_model request,
                                    completion_object = py ''text_completion'',
                                    completion_usage = None\<rparr>;
                          st3 = st2\<lparr>clock_reads := Suc (clock_reads st2)\<rparr>;
                          first = \<lparr>chunk = chunk1, exclude_none = False\<rparr>
                      in if output_finish_reason output \<noteq> None
                         then (let logprobs' = (if request_logprobs request \<noteq> None
                                                then Some empty_Logprobs else None);
                                   choice' = \<lparr>choice_index = i, choice_text = delta_text,
                                              choice_finish_reason = Some (py ''stop''),
                                              choice_logprobs = logprobs'\<rparr>;
                                   chunk2 = \<lparr>completion_id = request_id, completion_choices = [choice'],
                                             completion_created = time (clock_reads st3),
                                             completion_model = request_model request,
                                             completion_object = py ''text_completion'',
                                             completion_usage = None\<rparr>;
                                   st4 = st3\<lparr>clock_reads := Suc (clock_reads st3)\<rparr>
                               in Inr ([first, \<lparr>chunk = chunk2, exclude_none = True\<rparr>], st4))
                         else Inr ([first], st3)))))"

text \<open>
  The two loops. An exception ends the generator; what was yielded before stays yielded.
  The result is the chunks yielded and either the exception or the final state.
\<close>

fun stream_outputs ::
  "tokenizer \<Rightarrow> CompletionCreateParams \<Rightarrow> pystr \<Rightarrow> (nat \<Rightarrow> int) \<Rightarrow> stream_state \<Rightarrow>
   CompletionOutput list \<Rightarrow> yielded list \<times> (py_error + stream_state)"
where
  "stream_outputs tokenizer request request_id time st [] = ([], Inr st)"
| "stream_outputs tokenizer request request_id time st (output # rest) =
     (case stream_output tokenizer request request_id time st output of
        Inl e \<Rightarrow> ([], Inl e)
      | Inr (ys, st') \<Rightarrow>
          (case stream_outputs tokenizer request request_id time st' rest of
             (ys', r) \<Rightarrow> (ys @ ys', r)))"

fun stream_results ::
  "tokenizer \<Rightarrow> CompletionCreateParams \<Rightarrow> pystr \<Rightarrow> (nat \<Rightarrow> int) \<Rightarrow> stream_state \<Rightarrow>
   RequestOutput list \<Rightarrow> yielded list \<times> (py_error + stream_state)"
where
  "stream_results tokenizer request request_id time st [] = ([], Inr st)"
| "stream_results tokenizer request request_id time st (res # rest) =
     (case stream_outputs tokenizer request request_id time st (outputs res) of
        (ys, Inl e) \<Rightarrow> (ys, Inl e)
      | (ys, Inr st') \<Rightarrow>
          (case stream_results tokenizer request request_id time st' rest of
             (ys', r) \<Rightarrow> (ys @ ys', r)))"

definition initial_stream_state :: "CompletionCreateParams \<Rightarrow> stream_state" where
  "initial_stream_state request =
     \<lparr>previous_texts = replicate (nat (request_n request)) [],
      previous_num_tokens = replicate (nat (request_n request)) 0,
      clock_reads = 0\<rparr>"

text \<open>The chunks the generator yields over a snapshot sequence, before serialization.\<close>

definition generate_completion_stream_chunks ::
  "tokenizer \<Rightarrow> CompletionCreateParams \<Rightarrow> pystr \<Rightarrow> (nat \<Rightarrow> int) \<Rightarrow> RequestOutput list \<Rightarrow>
   yielded list \<times> (py_error + stream_state)"
where
  "generate_completion_stream_chunks tokenizer request request_id time result_generator =
     stream_results tokenizer request request_id time (initial_stream_state request) result_generator"

text \<open>
  The generator run to its end: the payloads in the order yielded, and the exception that
  ended it, if one did. \<open>unset\<close> is the parameter of the serialization.
\<close>

definition generate_completion_stream_generator ::
  "pystr list \<Rightarrow> RequestOutput list \<Rightarrow> CompletionCreateParams \<Rightarrow> pystr \<Rightarrow> tokenizer \<Rightarrow>
   (nat \<Rightarrow> int) \<Rightarrow> json list \<times> py_error option"
where
  "generate_completion_stream_generator unset result_generator request request_id tokenizer time =
     (case generate_completion_stream_chunks tokenizer request request_id time result_generator of
        (ys, r) \<Rightarrow>
          (map (\<lambda>y. model_dump_json unset (exclude_none y) (chunk y)) ys,
           case r of Inl e \<Rightarrow> Some e | Inr st \<Rightarrow> None))"


section \<open>\<open>create_completion\<close>\<close>

text \<open>
  What the endpoint does to its collaborators, in order: the calls of \<open>get_model_inputs\<close>,
  \<open>handle_request\<close> and \<open>engine.generate\<close> (with the request id), every snapshot taken from
  the result generator, every call of \<open>raw_request.is_disconnected\<close>, and
  \<open>engine.abort\<close> (with the request id).
\<close>

datatype effect =
    GetModelInputs
  | HandleRequest
  | EngineGenerate pystr
  | NextSnapshot
  | IsDisconnected
  | EngineAbort pystr

text \<open>
  What the endpoint returns: the error response of \<open>get_model_inputs\<close>, the
  \<open>EventSourceResponse\<close> around the stream generator (given by what the generator yields when
  run to its end), \<open>None\<close> after an abort, or the \<open>Completion\<close>.
\<close>

datatype response =
    ErrorResponse json
  | EventSource "json list \<times> py_error option"
  | NoResponse
  | CompletionResponse Completion

text \<open>
  The collaborators of one call: \<open>secrets.token_hex(12)\<close>, the successive values of
  \<open>int(time.time())\<close>, \<open>get_model_inputs\<close>, \<open>handle_request\<close>, the \<open>ValueError\<close> message of the
  \<open>SamplingParams\<close> constructor (if it raises), the snapshots \<open>engine.generate\<close> produces,
  the successive answers of \<open>raw_request.is_disconnected()\<close>, the tokenizer, and the names of
  the optional members of \<open>Completion\<close> the installed \<open>openai\<close> declares and the source leaves
  unset.
\<close>

record environment =
  token_hex :: pystr
  time_reads :: "nat \<Rightarrow> int"
  get_model_inputs :: "CompletionCreateParams \<Rightarrow> int list \<times> json option"
  handle_request :: "CompletionCreateParams \<Rightarrow> CompletionCreateParams \<times> int list"
  SamplingParams_ValueError :: "SamplingParams \<Rightarrow> pystr option"
  engine_generate :: "pystr option \<Rightarrow> SamplingParams \<Rightarrow> pystr \<Rightarrow> int list \<Rightarrow> RequestOutput list"
  is_disconnected :: "nat \<Rightarrow> bool"
  engine_tokenizer :: tokenizer
  Completion_unset :: "pystr list"

text \<open>
  The loop \<open>async for res in result_generator\<close> of the non-streaming path. \<open>k\<close> counts the
  calls of \<open>is_disconnected\<close> made so far. The result is \<open>None\<close> when the loop returned
  after an abort, and otherwise \<open>final_res\<close> as the loop leaves it.
\<close>

fun consume_results ::
  "(nat \<Rightarrow> bool) \<Rightarrow> pystr \<Rightarrow> nat \<Rightarrow> RequestOutput list \<Rightarrow> RequestOutput option \<Rightarrow>
   RequestOutput option option \<times> effect list"
where
  "consume_results disconnected request_id k [] final_res = (Some final_res, [])"
| "consume_results disconnected request_id k (res # rest) final_res =
     (if disconnected k
      then (None, [NextSnapshot, IsDisconnected, EngineAbort request_id])
      else (case consume_results disconnected request_id (Suc k) rest (Some res) of
              (r, effects) \<Rightarrow> (r, NextSnapshot # IsDisconnected # effects)))"

text \<open>
  The loop \<open>for output in final_res.outputs\<close> that builds \<open>choices\<close>. \<open>create_logprobs\<close> is
  called before \<open>CompletionChoice\<close>, whose constructor validates \<open>output.finish_reason\<close>.
\<close>

fun final_choices ::
  "tokenizer \<Rightarrow> CompletionCreateParams \<Rightarrow> CompletionOutput list \<Rightarrow> py_error + CompletionChoice list"
where
  "final_choices tokenizer request [] = Inr []"
| "final_choices tokenizer request (output # rest) =
     (let output_text' = strip_replacement (output_text output)
      in case (if request_logprobs request \<noteq> None
               then (case output_logprobs output of
                       None \<Rightarrow> Inl TypeError
                     | Some id_logprobs \<Rightarrow>
                         map_sum id Some
                           (create_logprobs tokenizer (output_token_ids output) id_logprobs 0))
               else Inr None) of
           Inl e \<Rightarrow> Inl e
         | Inr logprobs \<Rightarrow>
             if \<not> valid_finish_reason (output_finish_reason output) then Inl ValidationError
             else
             (let choice = \<lparr>choice_index = output_index output, choice_text = output_text',
                            choice_finish_reason = output_finish_reason output,
                            choice_logprobs = logprobs\<rparr>
              in case final_choices tokenizer request rest of
                   Inl e \<Rightarrow> Inl e
                 | Inr choices \<Rightarrow> Inr (choice # choices)))"

text \<open>From \<open>assert final_res is not None\<close> to the \<open>return\<close> of the \<open>Completion\<close>.\<close>

definition final_response ::
  "tokenizer \<Rightarrow> CompletionCreateParams \<Rightarrow> pystr \<Rightarrow> int \<Rightarrow> RequestOutput option \<Rightarrow>
   py_error + Completion"
where
  "final_response tokenizer request request_id now final_res =
     (case final_res of
        None \<Rightarrow> Inl AssertionError
      | Some res \<Rightarrow>
          (case final_choices tokenizer request (outputs res) of
             Inl e \<Rightarrow> Inl e
           | Inr choices \<Rightarrow>
               (let num_prompt_tokens = length (prompt_token_ids res);
                    num_generated_tokens = sum_list (map (\<lambda>output. length (output_token_ids output))
                                                       (outputs res));
                    usage = \<lparr>prompt_tokens = num_prompt_tokens,
                             completion_tokens = num_generated_tokens,
                             total_tokens = num_prompt_tokens + num_generated_tokens\<rparr>
                in Inr \<lparr>completion_id = request_id, completion_choices = choices,
                        completion_created = now,
                        completion_model = request_model request,
                        completion_object = py ''text_completion'',
                        completion_usage = Some usage\<rparr>)))"

text \<open>The non-streaming path, from \<open>final_res: RequestOutput = None\<close> to the end.\<close>

definition non_streaming_response ::
  "tokenizer \<Rightarrow> (nat \<Rightarrow> bool) \<Rightarrow> int \<Rightarrow> CompletionCreateParams \<Rightarrow> pystr \<Rightarrow> RequestOutput list \<Rightarrow>
   (py_error + response) \<times> effect list"
where
  "non_streaming_response tokenizer disconnected now request request_id result_generator =
     (case consume_results disconnected request_id 0 result_generator None of
        (None, effects) \<Rightarrow> (Inr NoResponse, effects)
      | (Some final_res, effects) \<Rightarrow>
          (case final_response tokenizer request request_id now final_res of
             Inl e \<Rightarrow> (Inl e, effects)
           | Inr completion \<Rightarrow> (Inr (CompletionResponse completion), effects)))"

text \<open>\<open>request.max_tokens or 128\<close>: \<open>None\<close> and \<open>0\<close> are both replaced.\<close>

definition max_tokens_or_128 :: "int option \<Rightarrow> int" where
  "max_tokens_or_128 m = (case m of None \<Rightarrow> 128 | Some v \<Rightarrow> if v = 0 then 128 else v)"

definition create_completion ::
  "environment \<Rightarrow> CompletionCreateParams \<Rightarrow> (py_error + response) \<times> effect list"
where
  "create_completion env request =
     (if request_echo request
      then (Inl (HTTPException 400 (py ''echo is not currently supported'')), [])
      else if request_suffix request \<noteq> None \<and> request_suffix request \<noteq> Some []
      then (Inl (HTTPException 400 (py ''suffix is not currently supported'')), [])
      else
        (let request1 = request\<lparr>request_max_tokens := Some (max_tokens_or_128 (request_max_tokens request))\<rparr>;
             request_id = py ''cmpl-'' @ token_hex env
         in case get_model_inputs env request1 of
              (token_ids, Some error_check_ret) \<Rightarrow> (Inr (ErrorResponse error_check_ret), [GetModelInputs])
            | (token_ids, None) \<Rightarrow>
                (case handle_request env request1 of
                   (request2, stop_token_ids) \<Rightarrow>
                     (let sampling_params =
                            \<lparr>sampling_n = request_n request2,
                             sampling_presence_penalty = request_presence_penalty request2,
                             sampling_frequency_penalty = request_frequency_penalty request2,
                             sampling_temperature = request_temperature request2,
                             sampling_top_p = request_top_p request2,
                             sampling_stop = request_stop request2,
                             sampling_stop_token_ids = stop_token_ids,
                             sampling_max_tokens = request_max_tokens request2\<rparr>
                      in case SamplingParams_ValueError env sampling_params of
                           Some e \<Rightarrow> (Inl (HTTPException 400 e), [GetModelInputs, HandleRequest])
                         | None \<Rightarrow>
                             (let result_generator =
                                    engine_generate env
                                      (case request_prompt request2 of
                                         PromptStr s \<Rightarrow> Some s
                                       | PromptTokenIds ids \<Rightarrow> None)
                                      sampling_params request_id token_ids;
                                  effects = [GetModelInputs, HandleRequest, EngineGenerate request_id]
                              in if request_stream request2
                                 then (Inr (EventSource
                                         (generate_completion_stream_generator (Completion_unset env)
                                            result_generator request2 request_id
                                            (engine_tokenizer env) (time_reads env))),
                                       effects)
                                 else (case non_streaming_response (engine_tokenizer env)
                                              (is_disconnected env) (time_reads env 0) request2
                                              request_id result_generator of
                                         (r, effects') \<Rightarrow> (r, effects @ effects')))))))"


section \<open>Properties stated about the code\<close>

text \<open>
  Offsets \<open>offs\<close> are aligned with the token texts \<open>toks\<close> from base \<open>b\<close>: one offset
  per token, the first is the base, and each later one is the previous offset plus the
  length of the previous token text.
\<close>

definition offsets_aligned :: "int \<Rightarrow> pystr list \<Rightarrow> int list \<Rightarrow> bool" where
  "offsets_aligned b toks offs \<longleftrightarrow>
     length offs = length toks \<and>
     (offs \<noteq> [] \<longrightarrow> offs ! 0 = b) \<and>
     (\<forall>i. 0 < i \<and> i < length offs \<longrightarrow> offs ! i = offs ! (i - 1) + int (length (toks ! (i - 1))))"

text \<open>
  The content chunk and the terminal chunk the generator builds for choice \<open>i\<close> with delta
  text \<open>delta\<close>: the first is yielded with \<open>model_dump_json()\<close>, the second with
  \<open>model_dump_json(exclude_none=True)\<close> and carries the empty log-probability record when
  log-probabilities were requested.
\<close>

definition content_chunk ::
  "CompletionCreateParams \<Rightarrow> pystr \<Rightarrow> int \<Rightarrow> int \<Rightarrow> pystr \<Rightarrow> Logprobs option \<Rightarrow> yielded" where
  "content_chunk request rid created i delta lp =
     \<lparr>chunk = \<lparr>completion_id = rid,
                completion_choices =
                  [\<lparr>choice_index = i, choice_text = delta,
                    choice_finish_reason = Some (py ''stop''), choice_logprobs = lp\<rparr>],
                completion_created = created,
                completion_model = request_model request,
                completion_object = py ''text_completion'',
                completion_usage = None\<rparr>,
      exclude_none = False\<rparr>"

definition terminal_chunk ::
  "CompletionCreateParams \<Rightarrow> pystr \<Rightarrow> int \<Rightarrow> int \<Rightarrow> pystr \<Rightarrow> yielded" where
  "terminal_chunk request rid created i delta =
     \<lparr>chunk = \<lparr>completion_id = rid,
                completion_choices =
                  [\<lparr>choice_index = i, choice_text = delta,
                    choice_finish_reason = Some (py ''stop''),
                    choice_logprobs = (if request_logprobs request \<noteq> None
                                       then Some empty_Logprobs else None)\<rparr>],
                completion_created = created,
                completion_model = request_model request,
                completion_object = py ''text_completion'',
                completion_usage = None\<rparr>,
      exclude_none = True\<rparr>"

text \<open>
  The delta texts of the content chunks for choice \<open>i\<close>, concatenated in the order yielded;
  the chunks yielded with \<open>exclude_none=True\<close> (the terminal ones) are left out.
\<close>

definition content_deltas :: "int \<Rightarrow> yielded list \<Rightarrow> pystr" where
  "content_deltas i ys =
     concat (map choice_text
       (filter (\<lambda>c. choice_index c = i)
          (concat (map (\<lambda>y. completion_choices (chunk y))
             (filter (\<lambda>y. \<not> exclude_none y) ys)))))"

text \<open>
  The stripped cumulative texts of choice \<open>i\<close> in the order of the outputs, and the
  condition that each text extends the one before, starting from \<open>p\<close>.
\<close>

definition choice_texts :: "int \<Rightarrow> CompletionOutput list \<Rightarrow> pystr list" where
  "choice_texts i outs =
     map (\<lambda>output. strip_replacement (output_text output))
       (filter (\<lambda>output. output_index output = i) outs)"

fun grows :: "pystr \<Rightarrow> pystr list \<Rightarrow> bool" where
  "grows p [] = True"
| "grows p (t # ts) = (prefix p t \<and> grows t ts)"

text \<open>
  A chunk yielded with \<open>exclude_none=True\<close> whose one choice has index \<open>i\<close>: a terminal chunk
  for choice \<open>i\<close>. An output of choice \<open>i\<close> that carries a finish reason.
\<close>

definition terminal_for :: "int \<Rightarrow> yielded \<Rightarrow> bool" where
  "terminal_for i y \<longleftrightarrow>
     exclude_none y \<and> map choice_index (completion_choices (chunk y)) = [i]"

definition finishes :: "int \<Rightarrow> CompletionOutput \<Rightarrow> bool" where
  "finishes i output \<longleftrightarrow> output_index output = i \<and> output_finish_reason output \<noteq> None"

text \<open>
  What one output contributes to the stream: a content chunk for its choice, followed,
  when the output carries a finish reason, by the terminal chunk with the same delta text.
\<close>

definition output_block :: "CompletionCreateParams \<Rightarrow> pystr \<Rightarrow> CompletionOutput \<Rightarrow> yielded list \<Rightarrow> bool" where
  "output_block request rid output block \<longleftrightarrow>
     (\<exists>created created' delta lp.
        block = content_chunk request rid created (output_index output) delta lp #
                (if output_finish_reason output \<noteq> None
                 then [terminal_chunk request rid created' (output_index output) delta]
                 else []))"

text \<open>
  The payloads as the wire format describes them. The terminal payload has no \<open>usage\<close>
  member and none of the unset optional members, and a \<open>logprobs\<close> member (four empty
  arrays) only when log-probabilities were requested. The content payload has every
  member, \<open>null\<close> where the value is \<open>None\<close>: \<open>usage\<close>, the unset optional members, and
  \<open>logprobs\<close> when there are none.
\<close>

definition terminal_payload :: "CompletionCreateParams \<Rightarrow> pystr \<Rightarrow> int \<Rightarrow> int \<Rightarrow> pystr \<Rightarrow> json" where
  "terminal_payload request rid created i delta =
     JObject
       [(py ''id'', JString rid),
        (py ''choices'',
           JArray [JObject
             ([(py ''finish_reason'', JString (py ''stop'')), (py ''index'', JInt i)] @
              (if request_logprobs request \<noteq> None
               then [(py ''logprobs'',
                        JObject [(py ''text_offset'', JArray []), (py ''token_logprobs'', JArray []),
                                 (py ''tokens'', JArray []), (py ''top_logprobs'', JArray [])])]
               else []) @
              [(py ''text'', JString delta)])]),
        (py ''created'', JInt created),
        (py ''model'', JString (request_model request)),
        (py ''object'', JString (py ''text_completion''))]"

definition content_payload ::
  "pystr list \<Rightarrow> CompletionCreateParams \<Rightarrow> pystr \<Rightarrow> int \<Rightarrow> int \<Rightarrow> pystr \<Rightarrow> Logprobs option \<Rightarrow>
   json" where
  "content_payload unset request rid created i delta lp =
     JObject
       ([(py ''id'', JString rid),
        (py ''choices'',
           JArray [JObject
             [(py ''finish_reason'', JString (py ''stop'')), (py ''index'', JInt i),
              (py ''logprobs'', (case lp of None \<Rightarrow> JNull | Some l \<Rightarrow> dump_Logprobs False l)),
              (py ''text'', JString delta)]]),
         (py ''created'', JInt created),
         (py ''model'', JString (request_model request)),
         (py ''object'', JString (py ''text_completion''))] @
        map (\<lambda>name. (name, JNull)) unset @
        [(py ''usage'', JNull)])"

text \<open>
  What a call on the heap returns to its caller: the exception, or the record at the
  address returned.
\<close>

definition returned :: "(py_error + nat) \<times> builder_heap \<Rightarrow> py_error + Logprobs" where
  "returned res = map_sum id (\<lambda>a. logprobs_objects (snd res) ! a) (fst res)"

text \<open>
  The engine's side of the contract for one output. Log-probabilities are there, and the
  chosen token id is a key of its own candidate map at every paired position. The finish
  reason is one the response type accepts. The choice index is one of \<open>0, \<dots>, n - 1\<close>.
\<close>

definition logprobs_present :: "CompletionOutput \<Rightarrow> bool" where
  "logprobs_present output \<longleftrightarrow>
     (case output_logprobs output of
        None \<Rightarrow> False
      | Some id_logprobs \<Rightarrow>
          list_all (\<lambda>(token_id, id_logprob). map_of id_logprob token_id \<noteq> None)
            (zip (output_token_ids output) id_logprobs))"


definition stream_output_ok :: "CompletionCreateParams \<Rightarrow> CompletionOutput \<Rightarrow> bool" where
  "stream_output_ok request output \<longleftrightarrow>
     0 \<le> output_index output \<and> output_index output < request_n request \<and>
     (request_logprobs request = None \<or> logprobs_present output)"

text \<open>The effect is a call of \<open>engine.abort\<close>.\<close>

fun is_abort :: "effect \<Rightarrow> bool" where
  "is_abort (EngineAbort request_id) = True"
| "is_abort e = False"

section \<open>Sample data for concrete evaluations\<close>

definition sample_tokenizer :: tokenizer where
  "sample_tokenizer i =
     (if i = 1 then py ''Hello'' else if i = 2 then py '','' else if i = 3 then py '' world!''
      else py ''?'')"

definition sample_request :: CompletionCreateParams where
  "sample_request =
     \<lparr>request_echo = False, request_suffix = None, request_max_tokens = None,
      request_prompt = PromptStr (py ''Hello''), request_n = 1,
      request_presence_penalty = 0, request_frequency_penalty = 0,
      request_temperature = 1, request_top_p = 1, request_stop = [],
      request_stream = False, request_logprobs = None, request_model = py ''llm''\<rparr>"

definition sample_snapshot1 :: RequestOutput where
  "sample_snapshot1 =
     \<lparr>prompt_token_ids = [9],
      outputs = [\<lparr>output_index = 0, output_text = py ''Hello,'', output_token_ids = [1, 2],
                  output_logprobs = Some [[(1, -0.5)], [(2, -0.25)]],
                  output_finish_reason = None\<rparr>]\<rparr>"

definition sample_snapshot2 :: RequestOutput where
  "sample_snapshot2 =
     \<lparr>prompt_token_ids = [9],
      outputs = [\<lparr>output_index = 0, output_text = py ''Hello, world!'', output_token_ids = [1, 2, 3],
                  output_logprobs = Some [[(1, -0.5)], [(2, -0.25)], [(3, -0.125)]],
                  output_finish_reason = Some (py ''stop'')\<rparr>]\<rparr>"

definition sample_request_id :: pystr where
  "sample_request_id = py ''cmpl-0123456789abcdef01234567''"

definition never_disconnected :: "nat \<Rightarrow> bool" where
  "never_disconnected k = False"


definition sample_time :: "nat \<Rightarrow> int" where
  "sample_time k = 1700000000 + int k"

definition sample_environment :: environment where
  "sample_environment =
     \<lparr>token_hex = py ''0123456789abcdef01234567'',
      time_reads = sample_time,
      get_model_inputs = (\<lambda>request. ([9], None)),
      handle_request = (\<lambda>request. (request, [])),
      SamplingParams_ValueError = (\<lambda>sampling_params. None),
      engine_generate = (\<lambda>prompt sampling_params request_id token_ids.
                           [sample_snapshot1, sample_snapshot2]),
      is_disconnected = never_disconnected,
      engine_tokenizer = sample_tokenizer,
      Completion_unset = [py ''system_fingerprint'']\<rparr>"

definition sample_completion :: Completion where
  "sample_completion =
     \<lparr>completion_id = sample_request_id,
      completion_choices = [\<lparr>choice_index = 0, choice_text = py ''Hello, world!'',
                              choice_finish_reason = Some (py ''stop''), choice_logprobs = None\<rparr>],
      completion_created = 1700000000,
      completion_model = py ''llm'',
      completion_object = py ''text_completion'',
      completion_usage = Some \<lparr>prompt_tokens = 1, completion_tokens = 3, total_tokens = 4\<rparr>\<rparr>"





text \<open>A request for two choices with log-probabilities, and two snapshots for it.\<close>

definition sample_pair_request :: CompletionCreateParams where
  "sample_pair_request = sample_request\<lparr>request_n := 2, request_logprobs := Some 1\<rparr>"

definition sample_pair_snapshot1 :: RequestOutput where
  "sample_pair_snapshot1 =
     \<lparr>prompt_token_ids = [9],
      outputs = [\<lparr>output_index = 0, output_text = py ''Hello'', output_token_ids = [1],
                  output_logprobs = Some [[(1, -0.5)]], output_finish_reason = None\<rparr>,
                 \<lparr>output_index = 1, output_text = py '','', output_token_ids = [2],
                  output_logprobs = Some [[(2, -0.25)]],
                  output_finish_reason = Some (py ''length'')\<rparr>]\<rparr>"

definition sample_pair_snapshot2 :: RequestOutput where
  "sample_pair_snapshot2 =
     \<lparr>prompt_token_ids = [9],
      outputs = [\<lparr>output_index = 0, output_text = py ''Hello,'', output_token_ids = [1, 2],
                  output_logprobs = Some [[(1, -0.5)], [(2, -0.25)]],
                  output_finish_reason = Some (py ''stop'')\<rparr>,
                 \<lparr>output_index = 1, output_text = py '','', output_token_ids = [2],
                  output_logprobs = Some [[(2, -0.25)]],
                  output_finish_reason = Some (py ''length'')\<rparr>]\<rparr>"

definition sample_pair_chunks :: "yielded list" where
  "sample_pair_chunks =
     [content_chunk sample_pair_request sample_request_id 1700000000 0 (py ''Hello'')
        (Some \<lparr>text_offset = [0], token_logprobs = [-0.5], tokens = [py ''Hello''],
                top_logprobs = [[(py ''Hello'', -0.5)]]\<rparr>),
      content_chunk sample_pair_request sample_request_id 1700000001 1 (py '','')
        (Some \<lparr>text_offset = [0], token_logprobs = [-0.25], tokens = [py '',''],
                top_logprobs = [[(py '','', -0.25)]]\<rparr>),
      terminal_chunk sample_pair_request sample_request_id 1700000002 1 (py '',''),
      content_chunk sample_pair_request sample_request_id 1700000003 0 (py '','')
        (Some \<lparr>text_offset = [5], token_logprobs = [-0.25], tokens = [py '',''],
                top_logprobs = [[(py '','', -0.25)]]\<rparr>),
      terminal_chunk sample_pair_request sample_request_id 1700000004 0 (py '',''),
      content_chunk sample_pair_request sample_request_id 1700000005 1 [] (Some empty_Logprobs),
      terminal_chunk sample_pair_request sample_request_id 1700000006 1 []]"

definition sample_pair_final_state :: stream_state where
  "sample_pair_final_state =
     \<lparr>previous_texts = [py ''Hello,'', py '',''], previous_num_tokens = [2, 1], clock_reads = 7\<rparr>"

definition sample_pair_completion :: Completion where
  "sample_pair_completion =
     \<lparr>completion_id = sample_request_id,
      completion_choices =
        [\<lparr>choice_index = 0, choice_text = py ''Hello,'',
          choice_finish_reason = Some (py ''stop''),
          choice_logprobs =
            Some \<lparr>text_offset = [0, 5], token_logprobs = [-0.5, -0.25],
                   tokens = [py ''Hello'', py '',''],
                   top_logprobs = [[(py ''Hello'', -0.5)], [(py '','', -0.25)]]\<rparr>\<rparr>,
         \<lparr>choice_index = 1, choice_text = py '','',
          choice_finish_reason = Some (py ''length''),
          choice_logprobs =
            Some \<lparr>text_offset = [0], token_logprobs = [-0.25], tokens = [py '',''],
                   top_logprobs = [[(py '','', -0.25)]]\<rparr>\<rparr>],
      completion_created = 1700000000,
      completion_model = py ''llm'',
      completion_object = py ''text_completion'',
      completion_usage = Some \<lparr>prompt_tokens = 1, completion_tokens = 3, total_tokens = 4\<rparr>\<rparr>"

section \<open>The log-probability builder: proofs\<close>

lemma offsets_aligned_length: "offsets_aligned b toks offs \<Longrightarrow> length offs = length toks"
  unfolding offsets_aligned_def by blast

lemma offsets_aligned_first: "offsets_aligned b toks offs \<Longrightarrow> offs \<noteq> [] \<Longrightarrow> offs ! 0 = b"
  unfolding offsets_aligned_def by blast

lemma offsets_aligned_step:
  "offsets_aligned b toks offs \<Longrightarrow> 0 < i \<Longrightarrow> i < length offs \<Longrightarrow>
   offs ! i = offs ! (i - 1) + int (length (toks ! (i - 1)))"
  unfolding offsets_aligned_def by blast

lemma offsets_aligned_snoc:
  assumes al: "offsets_aligned b toks offs" and ne: "offs \<noteq> []"
  shows "offsets_aligned b (toks @ [t]) (offs @ [last offs + int (length (last toks))])"
proof -
  have len: "length offs = length toks" by (rule offsets_aligned_length[OF al])
  with ne have tne: "toks \<noteq> []" by auto
  let ?offs = "offs @ [last offs + int (length (last toks))]"
  have 1: "length ?offs = length (toks @ [t])" using len by simp
  have 2: "?offs ! 0 = b" using ne offsets_aligned_first[OF al ne] by (simp add: nth_append)
  have 3: "?offs ! i = ?offs ! (i - 1) + int (length ((toks @ [t]) ! (i - 1)))"
    if i: "0 < i \<and> i < length ?offs" for i
  proof (cases "i < length offs")
    case True
    then have "offs ! i = offs ! (i - 1) + int (length (toks ! (i - 1)))"
      using offsets_aligned_step[OF al] i by blast
    moreover have "i - 1 < length offs" "i - 1 < length toks" using True len by auto
    ultimately show ?thesis using True len by (simp add: nth_append)
  next
    case False
    with i have "i = length offs" by simp
    then show ?thesis using len ne tne
      by (simp add: nth_append last_conv_nth)
  qed
  show ?thesis unfolding offsets_aligned_def using 1 2 3 by blast
qed

lemma create_logprobs_body_Inr:
  assumes "create_logprobs_body tok b tid m lp l = Inr (lp', l')"
  shows "\<exists>p. map_of m tid = Some p \<and>
     tokens lp' = tokens lp @ [tok tid] \<and>
     token_logprobs lp' = token_logprobs lp @ [p] \<and>
     text_offset lp' = text_offset lp @ [if text_offset lp = [] then b else last (text_offset lp) + int l] \<and>
     top_logprobs lp' = top_logprobs lp @ [top_logprob_dict tok m] \<and>
     l' = length (tok tid)"
  using assms unfolding create_logprobs_body_def Let_def
  by (cases "map_of m tid") (auto split: if_splits)


lemma create_logprobs_loop_inv:
  assumes "create_logprobs_loop tok b ps lp l = Inr r"
    and "offsets_aligned b (tokens lp) (text_offset lp)"
    and "tokens lp \<noteq> [] \<longrightarrow> l = length (last (tokens lp))"
  shows "offsets_aligned b (tokens r) (text_offset r)"
  using assms
proof (induction ps arbitrary: lp l)
  case Nil
  then show ?case by simp
next
  case (Cons a ps)
  obtain tid m where a: "a = (tid, m)" by (cases a)
  from Cons.prems(1) a obtain lp' l' where
    body: "create_logprobs_body tok b tid m lp l = Inr (lp', l')" and
    run: "create_logprobs_loop tok b ps lp' l' = Inr r"
    by (auto split: sum.splits)
  from create_logprobs_body_Inr[OF body] have
    tk: "tokens lp' = tokens lp @ [tok tid]" and
    off: "text_offset lp' = text_offset lp @ [if text_offset lp = [] then b else last (text_offset lp) + int l]" and
    l': "l' = length (tok tid)"
    by blast+
  have len: "length (text_offset lp) = length (tokens lp)"
    by (rule offsets_aligned_length[OF Cons.prems(2)])
  have al: "offsets_aligned b (tokens lp') (text_offset lp')"
  proof (cases "text_offset lp = []")
    case True
    with len have "tokens lp = []" by simp
    with True tk off show ?thesis by (simp add: offsets_aligned_def)
  next
    case False
    with len have "tokens lp \<noteq> []" by auto
    with Cons.prems(3) have "l = length (last (tokens lp))" by simp
    with False offsets_aligned_snoc[OF Cons.prems(2) False, of "tok tid"] tk off show ?thesis by simp
  qed
  have lst: "tokens lp' \<noteq> [] \<longrightarrow> l' = length (last (tokens lp'))" using tk l' by simp
  from Cons.IH[OF run al lst] show ?case .
qed

lemma create_logprobs_loop_fields:
  assumes "create_logprobs_loop tok b ps lp l = Inr r"
  shows "tokens r = tokens lp @ map (\<lambda>(tid, m). tok tid) ps \<and>
         token_logprobs r = token_logprobs lp @ map (\<lambda>(tid, m). the (map_of m tid)) ps \<and>
         top_logprobs r = top_logprobs lp @ map (\<lambda>(tid, m). top_logprob_dict tok m) ps \<and>
         length (text_offset r) = length (text_offset lp) + length ps \<and>
         (\<forall>(tid, m) \<in> set ps. map_of m tid \<noteq> None)"
  using assms
proof (induction ps arbitrary: lp l)
  case Nil
  then show ?case by simp
next
  case (Cons a ps)
  obtain tid m where a: "a = (tid, m)" by (cases a)
  from Cons.prems(1) a obtain lp' l' where
    body: "create_logprobs_body tok b tid m lp l = Inr (lp', l')" and
    run: "create_logprobs_loop tok b ps lp' l' = Inr r"
    by (auto split: sum.splits)
  from create_logprobs_body_Inr[OF body] Cons.IH[OF run] a show ?case
    by auto
qed

lemma create_logprobs_loop_Inl:
  assumes "create_logprobs_loop tok b ps lp l = Inl e"
  shows "\<exists>(tid, m) \<in> set ps. map_of m tid = None \<and> e = KeyError tid"
  using assms
proof (induction ps arbitrary: lp l)
  case Nil
  then show ?case by simp
next
  case (Cons a ps)
  obtain tid m where a: "a = (tid, m)" by (cases a)
  show ?case
  proof (cases "create_logprobs_body tok b tid m lp l")
    case (Inl e')
    then have "map_of m tid = None \<and> e' = KeyError tid"
      unfolding create_logprobs_body_def Let_def by (auto split: option.splits)
    with Inl Cons.prems a show ?thesis by auto
  next
    case (Inr q)
    obtain lp' l' where q: "q = (lp', l')" by (cases q)
    with Inr Cons.prems a have "create_logprobs_loop tok b ps lp' l' = Inl e" by simp
    from Cons.IH[OF this] show ?thesis by auto
  qed
qed

lemma create_logprobs_loop_total:
  assumes "\<forall>(tid, m) \<in> set ps. map_of m tid \<noteq> None"
  shows "\<exists>r. create_logprobs_loop tok b ps lp l = Inr r"
proof (cases "create_logprobs_loop tok b ps lp l")
  case (Inl e)
  from create_logprobs_loop_Inl[OF this] assms show ?thesis by auto
next
  case (Inr r)
  then show ?thesis by blast
qed

text \<open>
  Claim C4. Whenever \<open>create_logprobs\<close> returns a record, its first text offset (if there
  is one) is \<open>initial_text_offset\<close>, and every later offset exceeds its predecessor by
  the length of the tokenizer's text for the previous token id, which is the previous
  entry of \<open>tokens\<close>. This holds for inputs of equal length and of different lengths.
\<close>

theorem create_logprobs_text_offset:
  assumes "create_logprobs tok ids lps b = Inr r"
  shows "(text_offset r \<noteq> [] \<longrightarrow> text_offset r ! 0 = b) \<and>
         (\<forall>i. 0 < i \<and> i < length (text_offset r) \<longrightarrow>
            tokens r ! (i - 1) = tok (ids ! (i - 1)) \<and>
            text_offset r ! i - text_offset r ! (i - 1) = int (length (tok (ids ! (i - 1)))))"
proof -
  let ?ps = "zip ids lps"
  from assms have run: "create_logprobs_loop tok b ?ps empty_Logprobs 0 = Inr r"
    by (simp add: create_logprobs_def)
  have al0: "offsets_aligned b (tokens empty_Logprobs) (text_offset empty_Logprobs)"
    by (simp add: offsets_aligned_def empty_Logprobs_def)
  have al: "offsets_aligned b (tokens r) (text_offset r)"
    by (rule create_logprobs_loop_inv[OF run al0]) (simp add: empty_Logprobs_def)
  from create_logprobs_loop_fields[OF run]
  have tk: "tokens r = map (\<lambda>(tid, m). tok tid) ?ps"
    by (simp add: empty_Logprobs_def)
  have len: "length (text_offset r) = length (tokens r)"
    by (rule offsets_aligned_length[OF al])
  have first: "text_offset r \<noteq> [] \<longrightarrow> text_offset r ! 0 = b"
    using offsets_aligned_first[OF al] by blast
  have step: "tokens r ! (i - 1) = tok (ids ! (i - 1)) \<and>
      text_offset r ! i - text_offset r ! (i - 1) = int (length (tok (ids ! (i - 1))))"
    if i: "0 < i \<and> i < length (text_offset r)" for i
  proof -
    from i len tk have lt: "i - 1 < length ?ps" by auto
    then have "tokens r ! (i - 1) = tok (ids ! (i - 1))"
      using tk by simp
    moreover have "text_offset r ! i = text_offset r ! (i - 1) + int (length (tokens r ! (i - 1)))"
      using offsets_aligned_step[OF al] i by blast
    ultimately show ?thesis by simp
  qed
  from first step show ?thesis by blast
qed

theorem create_logprobs_text_offset_witness:
  "create_logprobs sample_tokenizer [1, 2, 3]
     [[(1, -0.5), (2, -1.5)], [(2, -0.25)], [(3, -0.125), (9, -4)]] 7
   = Inr \<lparr>text_offset = [7, 12, 13], token_logprobs = [-0.5, -0.25, -0.125],
         tokens = [py ''Hello'', py '','', py '' world!''],
         top_logprobs = [[(py ''Hello'', -0.5), (py '','', -1.5)], [(py '','', -0.25)],
            [(py '' world!'', -0.125), (py ''?'', -4)]]\<rparr> \<and>
   [7, 12, 13 :: int] ! 0 = 7 \<and>
   [7, 12, 13 :: int] ! 1 - [7, 12, 13] ! 0 = int (length (sample_tokenizer 1)) \<and>
   [7, 12, 13 :: int] ! 2 - [7, 12, 13] ! 1 = int (length (sample_tokenizer 2))"
proof -
  have run: "create_logprobs sample_tokenizer [1, 2, 3]
     [[(1, -0.5), (2, -1.5)], [(2, -0.25)], [(3, -0.125), (9, -4)]] 7
   = Inr \<lparr>text_offset = [7, 12, 13], token_logprobs = [-0.5, -0.25, -0.125],
         tokens = [py ''Hello'', py '','', py '' world!''],
         top_logprobs = [[(py ''Hello'', -0.5), (py '','', -1.5)], [(py '','', -0.25)],
            [(py '' world!'', -0.125), (py ''?'', -4)]]\<rparr>"
    by (simp add: create_logprobs_def create_logprobs_body_def empty_Logprobs_def
      top_logprob_dict_def sample_tokenizer_def py_def Let_def)
  note t = create_logprobs_text_offset[OF run]
  have 0: "[7, 12, 13 :: int] ! 0 = 7"
    using t[THEN conjunct1] by simp
  have 1: "[7, 12, 13 :: int] ! 1 - [7, 12, 13] ! 0 = int (length (sample_tokenizer 1))"
    using t[THEN conjunct2, rule_format, of 1] by simp
  have 2: "[7, 12, 13 :: int] ! 2 - [7, 12, 13] ! 1 = int (length (sample_tokenizer 2))"
    using t[THEN conjunct2, rule_format, of 2] by simp
  from 0 1 2 have "[7, 12, 13 :: int] ! 0 = 7 \<and>
   [7, 12, 13 :: int] ! 1 - [7, 12, 13] ! 0 = int (length (sample_tokenizer 1)) \<and>
   [7, 12, 13 :: int] ! 2 - [7, 12, 13] ! 1 = int (length (sample_tokenizer 2))" by blast
  with run show ?thesis by simp
qed

lemma create_logprobs_body_None:
  "map_of m tid = None \<Longrightarrow> create_logprobs_body tok b tid m lp l = Inl (KeyError tid)"
  by (simp add: create_logprobs_body_def Let_def)

lemma create_logprobs_body_Some:
  "map_of m tid = Some p \<Longrightarrow> \<exists>lp' l'. create_logprobs_body tok b tid m lp l = Inr (lp', l')"
  by (simp add: create_logprobs_body_def Let_def)

lemma create_logprobs_loop_first_missing:
  assumes "i < length ps"
    and "map_of (snd (ps ! i)) (fst (ps ! i)) = None"
    and "\<forall>j<i. map_of (snd (ps ! j)) (fst (ps ! j)) \<noteq> None"
  shows "create_logprobs_loop tok b ps lp l = Inl (KeyError (fst (ps ! i)))"
  using assms
proof (induction ps arbitrary: i lp l)
  case Nil
  then show ?case by simp
next
  case (Cons a ps)
  obtain tid m where a: "a = (tid, m)" by (cases a)
  show ?case
  proof (cases i)
    case 0
    with Cons.prems(2) a have "map_of m tid = None" by simp
    with 0 a show ?thesis by (simp add: create_logprobs_body_None)
  next
    case (Suc k)
    from Cons.prems(3) Suc have "map_of (snd ((a # ps) ! 0)) (fst ((a # ps) ! 0)) \<noteq> None"
      by blast
    with a obtain p where "map_of m tid = Some p" by auto
    from create_logprobs_body_Some[OF this] obtain lp' l' where
      body: "create_logprobs_body tok b tid m lp l = Inr (lp', l')" by blast
    have k: "k < length ps" using Cons.prems(1) Suc by simp
    have kn: "map_of (snd (ps ! k)) (fst (ps ! k)) = None" using Cons.prems(2) Suc by simp
    have kj: "\<forall>j<k. map_of (snd (ps ! j)) (fst (ps ! j)) \<noteq> None"
    proof (intro allI impI)
      fix j assume "j < k"
      then have "Suc j < i" using Suc by simp
      with Cons.prems(3) have "map_of (snd ((a # ps) ! Suc j)) (fst ((a # ps) ! Suc j)) \<noteq> None"
        by blast
      then show "map_of (snd (ps ! j)) (fst (ps ! j)) \<noteq> None" by simp
    qed
    from Cons.IH[OF k kn kj, of lp' l'] body a Suc show ?thesis by simp
  qed
qed

lemma create_logprobs_Inr_fields:
  assumes "create_logprobs tok ids lps b = Inr r"
  shows "tokens r = map (\<lambda>(tid, m). tok tid) (zip ids lps)"
    and "token_logprobs r = map (\<lambda>(tid, m). the (map_of m tid)) (zip ids lps)"
    and "top_logprobs r = map (\<lambda>(tid, m). top_logprob_dict tok m) (zip ids lps)"
    and "length (text_offset r) = length (zip ids lps)"
    and "\<forall>(tid, m) \<in> set (zip ids lps). map_of m tid \<noteq> None"
  using create_logprobs_loop_fields[of tok b "zip ids lps" empty_Logprobs 0 r] assms
  by (simp_all add: create_logprobs_def empty_Logprobs_def)

text \<open>
  Claim C5 (as amended). Whenever \<open>create_logprobs\<close> returns a record, it has one chosen
  log-probability per paired position, and the one at position \<open>i\<close> is the value stored
  under \<open>token_ids[i]\<close> in \<open>id_logprobs[i]\<close>. When the chosen id is absent from its own map at
  a paired position (and present at all earlier ones), the call raises the \<open>KeyError\<close> of
  the dictionary subscript, with that id; the source has no guard around the subscript and
  no error class of its own for this case.
\<close>

theorem create_logprobs_chosen_logprob:
  "(create_logprobs tok ids lps b = Inr r \<longrightarrow>
      length (token_logprobs r) = min (length ids) (length lps) \<and>
      (\<forall>i < length (token_logprobs r). map_of (lps ! i) (ids ! i) = Some (token_logprobs r ! i))) \<and>
   (i < min (length ids) (length lps) \<and> map_of (lps ! i) (ids ! i) = None \<and>
      (\<forall>j<i. map_of (lps ! j) (ids ! j) \<noteq> None) \<longrightarrow>
      create_logprobs tok ids lps b = Inl (KeyError (ids ! i)))"
proof (intro conjI impI)
  assume run: "create_logprobs tok ids lps b = Inr r"
  note f = create_logprobs_Inr_fields[OF run]
  show "length (token_logprobs r) = min (length ids) (length lps)"
    using f(2) by simp
  show "\<forall>i < length (token_logprobs r). map_of (lps ! i) (ids ! i) = Some (token_logprobs r ! i)"
  proof (intro allI impI)
    fix k assume k: "k < length (token_logprobs r)"
    with f(2) have kz: "k < length (zip ids lps)" by simp
    then have mem: "zip ids lps ! k \<in> set (zip ids lps)" by (rule nth_mem)
    from kz have z: "zip ids lps ! k = (ids ! k, lps ! k)" by simp
    from f(5) mem z have "map_of (lps ! k) (ids ! k) \<noteq> None" by auto
    moreover from f(2) kz z have "token_logprobs r ! k = the (map_of (lps ! k) (ids ! k))" by simp
    ultimately show "map_of (lps ! k) (ids ! k) = Some (token_logprobs r ! k)" by auto
  qed
next
  assume a: "i < min (length ids) (length lps) \<and> map_of (lps ! i) (ids ! i) = None \<and>
      (\<forall>j<i. map_of (lps ! j) (ids ! j) \<noteq> None)"
  let ?ps = "zip ids lps"
  from a have i: "i < length ?ps" by simp
  have n: "map_of (snd (?ps ! i)) (fst (?ps ! i)) = None" using a i by simp
  have p: "\<forall>j<i. map_of (snd (?ps ! j)) (fst (?ps ! j)) \<noteq> None"
  proof (intro allI impI)
    fix j assume "j < i"
    with a i show "map_of (snd (?ps ! j)) (fst (?ps ! j)) \<noteq> None" by simp
  qed
  from create_logprobs_loop_first_missing[OF i n p, of tok b empty_Logprobs 0] i
  show "create_logprobs tok ids lps b = Inl (KeyError (ids ! i))"
    by (simp add: create_logprobs_def)
qed

theorem create_logprobs_chosen_logprob_witness:
  "create_logprobs sample_tokenizer [1, 2] [[(1, -0.5), (2, -1.5)], [(2, -0.25)]] 0 =
     Inr \<lparr>text_offset = [0, 5], token_logprobs = [-0.5, -0.25],
          tokens = [py ''Hello'', py '',''],
          top_logprobs = [[(py ''Hello'', -0.5), (py '','', -1.5)], [(py '','', -0.25)]]\<rparr> \<and>
   map_of ([[(1, -0.5), (2, -1.5)], [(2, -0.25 :: real)]] ! 1) ([1, 2 :: int] ! 1) = Some (-0.25) \<and>
   map_of ([[(1, -0.5 :: real)], [(3, -0.25)]] ! 1) ([1, 2 :: int] ! 1) = None \<and>
   create_logprobs sample_tokenizer [1, 2] [[(1, -0.5)], [(3, -0.25)]] 0 = Inl (KeyError 2)"
proof -
  let ?r = "\<lparr>text_offset = [0, 5], token_logprobs = [-0.5, -0.25 :: real],
          tokens = [py ''Hello'', py '',''],
          top_logprobs = [[(py ''Hello'', -0.5), (py '','', -1.5 :: real)], [(py '','', -0.25)]]\<rparr>"
  have run: "create_logprobs sample_tokenizer [1, 2] [[(1, -0.5), (2, -1.5)], [(2, -0.25)]] 0 = Inr ?r"
    by (simp add: create_logprobs_def create_logprobs_body_def empty_Logprobs_def
      top_logprob_dict_def sample_tokenizer_def py_def Let_def)
  have 1: "map_of ([[(1, -0.5), (2, -1.5)], [(2, -0.25 :: real)]] ! 1) ([1, 2 :: int] ! 1) = Some (-0.25)"
    using create_logprobs_chosen_logprob[of sample_tokenizer "[1, 2]"
        "[[(1, -0.5), (2, -1.5)], [(2, -0.25)]]" 0 ?r 0, THEN conjunct1, rule_format, OF run,
        THEN conjunct2, rule_format, of 1]
    by simp
  have 2: "map_of ([[(1, -0.5 :: real)], [(3, -0.25)]] ! 1) ([1, 2 :: int] ! 1) = None" by simp
  have 3: "create_logprobs sample_tokenizer [1, 2] [[(1, -0.5)], [(3, -0.25)]] 0 = Inl (KeyError 2)"
    using create_logprobs_chosen_logprob[of sample_tokenizer "[1, 2]"
        "[[(1, -0.5)], [(3, -0.25)]]" 0 ?r 1, THEN conjunct2, rule_format]
    by (simp add: less_Suc_eq)
  from run 1 2 3 show ?thesis by blast
qed

text \<open>
  Claim C5 as stated fails: with the chosen id 7 absent from its candidate map, the
  exception is the bare \<open>KeyError\<close> of the subscript \<open>id_logprob[token_id]\<close>, not a guarded,
  classified error.
\<close>

theorem create_logprobs_missing_candidate_counterexample:
  "create_logprobs sample_tokenizer [7] [[(8, -0.5)]] 0 = Inl (KeyError 7)"
  by (simp add: create_logprobs_def create_logprobs_body_def Let_def)

lemma update_object_length [simp]:
  "length (logprobs_objects (update_object a f h)) = length (logprobs_objects h)"
  by (simp add: update_object_def)

lemma update_object_calls [simp]:
  "tokenizer_calls (update_object a f h) = tokenizer_calls h"
  by (simp add: update_object_def)

lemma update_object_same:
  "a < length (logprobs_objects h) \<Longrightarrow>
   logprobs_objects (update_object a f h) ! a = f (logprobs_objects h ! a)"
  by (simp add: update_object_def)

lemma update_object_other:
  "j \<noteq> a \<Longrightarrow> logprobs_objects (update_object a f h) ! j = logprobs_objects h ! j"
  by (simp add: update_object_def)

lemma create_logprobs_body_on_frame:
  "length (logprobs_objects (snd (create_logprobs_body_on tok b a tid m l h))) =
     length (logprobs_objects h) \<and>
   (\<forall>j. j \<noteq> a \<longrightarrow>
      logprobs_objects (snd (create_logprobs_body_on tok b a tid m l h)) ! j = logprobs_objects h ! j)"
  by (cases "map_of m tid")
     (simp_all add: create_logprobs_body_on_def Let_def update_object_other)

lemma create_logprobs_body_on_value:
  assumes a: "a < length (logprobs_objects h)"
  shows "(case create_logprobs_body tok b tid m (logprobs_objects h ! a) l of
            Inl e \<Rightarrow> fst (create_logprobs_body_on tok b a tid m l h) = Inl e
          | Inr (lp', l') \<Rightarrow>
              fst (create_logprobs_body_on tok b a tid m l h) = Inr l' \<and>
              logprobs_objects (snd (create_logprobs_body_on tok b a tid m l h)) ! a = lp')"
proof (cases "map_of m tid")
  case None
  then show ?thesis
    by (simp add: create_logprobs_body_on_def create_logprobs_body_def Let_def)
next
  case (Some p)
  with a show ?thesis
    by (simp add: create_logprobs_body_on_def create_logprobs_body_def Let_def update_object_same)
qed

lemma create_logprobs_loop_on_refines:
  assumes "a < length (logprobs_objects h)"
  shows "(case create_logprobs_loop tok b ps (logprobs_objects h ! a) l of
            Inl e \<Rightarrow> fst (create_logprobs_loop_on tok b a ps l h) = Inl e
          | Inr lp \<Rightarrow>
              fst (create_logprobs_loop_on tok b a ps l h) = Inr () \<and>
              logprobs_objects (snd (create_logprobs_loop_on tok b a ps l h)) ! a = lp) \<and>
         length (logprobs_objects (snd (create_logprobs_loop_on tok b a ps l h))) =
           length (logprobs_objects h) \<and>
         (\<forall>j. j \<noteq> a \<longrightarrow>
            logprobs_objects (snd (create_logprobs_loop_on tok b a ps l h)) ! j =
            logprobs_objects h ! j)"
  using assms
proof (induction ps arbitrary: h l)
  case Nil
  then show ?case by simp
next
  case (Cons x ps)
  obtain tid m where x: "x = (tid, m)" by (cases x)
  obtain r h1 where on: "create_logprobs_body_on tok b a tid m l h = (r, h1)"
    by (cases "create_logprobs_body_on tok b a tid m l h")
  from create_logprobs_body_on_frame[of tok b a tid m l h] on have
    len: "length (logprobs_objects h1) = length (logprobs_objects h)" and
    oth: "\<forall>j. j \<noteq> a \<longrightarrow> logprobs_objects h1 ! j = logprobs_objects h ! j" by simp_all
  note v = create_logprobs_body_on_value[OF Cons.prems, of tok b tid m l]
  show ?case
  proof (cases "create_logprobs_body tok b tid m (logprobs_objects h ! a) l")
    case (Inl e)
    with v on have r: "r = Inl e" by simp
    have step: "create_logprobs_loop_on tok b a (x # ps) l h = (Inl e, h1)"
      using on r x by simp
    have pure: "create_logprobs_loop tok b (x # ps) (logprobs_objects h ! a) l = Inl e"
      using Inl x by simp
    from len oth show ?thesis unfolding step pure by simp
  next
    case (Inr q)
    obtain lp' l' where q: "q = (lp', l')" by (cases q)
    with Inr v on have r: "r = Inr l'" and o: "logprobs_objects h1 ! a = lp'" by simp_all
    from Cons.prems len have a1: "a < length (logprobs_objects h1)" by simp
    have step: "create_logprobs_loop_on tok b a (x # ps) l h =
        create_logprobs_loop_on tok b a ps l' h1"
      using on r x by simp
    have pure: "create_logprobs_loop tok b (x # ps) (logprobs_objects h ! a) l =
        create_logprobs_loop tok b ps lp' l'"
      using Inr q x by simp
    from Cons.IH[OF a1, of l'] o len oth
    show ?thesis unfolding step pure by simp
  qed
qed

lemma create_logprobs_on_refines:
  "returned (create_logprobs_on tok ids lps b h) = create_logprobs tok ids lps b \<and>
   take (length (logprobs_objects h)) (logprobs_objects (snd (create_logprobs_on tok ids lps b h))) =
     logprobs_objects h \<and>
   length (logprobs_objects (snd (create_logprobs_on tok ids lps b h))) =
     Suc (length (logprobs_objects h))"
proof -
  let ?a = "length (logprobs_objects h)"
  let ?h0 = "h\<lparr>logprobs_objects := logprobs_objects h @ [empty_Logprobs]\<rparr>"
  let ?run = "create_logprobs_loop_on tok b ?a (zip ids lps) 0 ?h0"
  have a: "?a < length (logprobs_objects ?h0)" by simp
  have o: "logprobs_objects ?h0 ! ?a = empty_Logprobs" by simp
  note r = create_logprobs_loop_on_refines[OF a, of tok b "zip ids lps" 0]
  from r have len: "length (logprobs_objects (snd ?run)) = Suc ?a" by simp
  from r have oth: "\<forall>j. j \<noteq> ?a \<longrightarrow> logprobs_objects (snd ?run) ! j = logprobs_objects ?h0 ! j"
    by blast
  have tk: "take ?a (logprobs_objects (snd ?run)) = logprobs_objects h"
  proof (rule nth_equalityI)
    show "length (take ?a (logprobs_objects (snd ?run))) = length (logprobs_objects h)"
      using len by simp
  next
    fix j assume "j < length (take ?a (logprobs_objects (snd ?run)))"
    then have j: "j < ?a" by simp
    with oth have "logprobs_objects (snd ?run) ! j = logprobs_objects ?h0 ! j" by simp
    with j show "take ?a (logprobs_objects (snd ?run)) ! j = logprobs_objects h ! j"
      by (simp add: nth_append)
  qed
  have snd_eq: "snd (create_logprobs_on tok ids lps b h) = snd ?run"
    by (cases ?run) (auto simp: create_logprobs_on_def Let_def split: sum.splits)
  have ret: "returned (create_logprobs_on tok ids lps b h) = create_logprobs tok ids lps b"
  proof (cases "create_logprobs_loop tok b (zip ids lps) empty_Logprobs 0")
    case (Inl e)
    with r o have "fst ?run = Inl e" by simp
    then have "fst (create_logprobs_on tok ids lps b h) = Inl e"
      by (cases ?run) (auto simp: create_logprobs_on_def Let_def)
    with Inl show ?thesis by (simp add: returned_def create_logprobs_def)
  next
    case (Inr lp)
    with r o have f: "fst ?run = Inr ()" and v: "logprobs_objects (snd ?run) ! ?a = lp" by simp_all
    from f have "fst (create_logprobs_on tok ids lps b h) = Inr ?a"
      by (cases ?run) (auto simp: create_logprobs_on_def Let_def)
    with Inr v snd_eq show ?thesis by (simp add: returned_def create_logprobs_def)
  qed
  from ret tk len snd_eq show ?thesis by simp
qed


text \<open>
  Claim C9. For an empty token-id sequence and an empty sequence of log-probability maps,
  \<open>create_logprobs\<close> returns the record whose four lists are all empty, whatever the
  tokenizer and the base offset. The call has no side effect: on the heap, it adds the new
  empty record behind the objects that were there and changes none of them, and it does
  not call the tokenizer. It does not depend on prior calls: the record returned is the
  same from every heap, whatever calls produced it. (For every input, what a call returns
  from any heap is the value of \<open>create_logprobs\<close> on its arguments, and the objects that
  were there are unchanged.)
\<close>

theorem create_logprobs_empty:
  "create_logprobs tok [] [] b =
     Inr \<lparr>text_offset = [], token_logprobs = [], tokens = [], top_logprobs = []\<rparr> \<and>
   create_logprobs_on tok [] [] b h =
     (Inr (length (logprobs_objects h)),
      h\<lparr>logprobs_objects := logprobs_objects h @
           [\<lparr>text_offset = [], token_logprobs = [], tokens = [], top_logprobs = []\<rparr>]\<rparr>) \<and>
   returned (create_logprobs_on tok [] [] b h) =
     Inr \<lparr>text_offset = [], token_logprobs = [], tokens = [], top_logprobs = []\<rparr> \<and>
   take (length (logprobs_objects h)) (logprobs_objects (snd (create_logprobs_on tok [] [] b h))) =
     logprobs_objects h \<and>
   tokenizer_calls (snd (create_logprobs_on tok [] [] b h)) = tokenizer_calls h \<and>
   returned (create_logprobs_on tok [] [] b h) = returned (create_logprobs_on tok' [] [] b' h') \<and>
   returned (create_logprobs_on tok ids lps b h) = create_logprobs tok ids lps b \<and>
   take (length (logprobs_objects h)) (logprobs_objects (snd (create_logprobs_on tok ids lps b h))) =
     logprobs_objects h"
proof -
  have 1: "create_logprobs tok [] [] b =
     Inr \<lparr>text_offset = [], token_logprobs = [], tokens = [], top_logprobs = []\<rparr>"
    by (simp add: create_logprobs_def empty_Logprobs_def)
  have 2: "create_logprobs_on tok [] [] b h =
     (Inr (length (logprobs_objects h)),
      h\<lparr>logprobs_objects := logprobs_objects h @
           [\<lparr>text_offset = [], token_logprobs = [], tokens = [], top_logprobs = []\<rparr>]\<rparr>)"
    by (simp add: create_logprobs_on_def empty_Logprobs_def Let_def)
  have 3: "returned (create_logprobs_on tok [] [] b h) =
     Inr \<lparr>text_offset = [], token_logprobs = [], tokens = [], top_logprobs = []\<rparr>" for tok b h
    by (simp add: create_logprobs_on_def empty_Logprobs_def Let_def returned_def)
  have 4: "take (length (logprobs_objects h))
       (logprobs_objects (snd (create_logprobs_on tok [] [] b h))) = logprobs_objects h"
    by (simp add: 2)
  have 5: "tokenizer_calls (snd (create_logprobs_on tok [] [] b h)) = tokenizer_calls h"
    by (simp add: 2)
  have 6: "returned (create_logprobs_on tok [] [] b h) = returned (create_logprobs_on tok' [] [] b' h')"
    by (simp only: 3)
  have 7: "returned (create_logprobs_on tok ids lps b h) = create_logprobs tok ids lps b"
    using create_logprobs_on_refines[of tok ids lps b h] by blast
  have 8: "take (length (logprobs_objects h))
       (logprobs_objects (snd (create_logprobs_on tok ids lps b h))) = logprobs_objects h"
    using create_logprobs_on_refines[of tok ids lps b h] by blast
  show ?thesis
    by (intro conjI) (fact 1 2 3 4 5 6 7 8)+
qed

theorem create_logprobs_empty_witness:
  "create_logprobs sample_tokenizer [] [] 13 =
     Inr \<lparr>text_offset = [], token_logprobs = [], tokens = [], top_logprobs = []\<rparr> \<and>
   create_logprobs_on sample_tokenizer [1] [[(1, -0.5)]] 0
     \<lparr>logprobs_objects = [], tokenizer_calls = []\<rparr> =
     (Inr 0,
      \<lparr>logprobs_objects = [\<lparr>text_offset = [0], token_logprobs = [-0.5], tokens = [py ''Hello''],
                              top_logprobs = [[(py ''Hello'', -0.5)]]\<rparr>],
       tokenizer_calls = [1, 1]\<rparr>) \<and>
   create_logprobs_on sample_tokenizer [] [] 13
     \<lparr>logprobs_objects = [\<lparr>text_offset = [0], token_logprobs = [-0.5], tokens = [py ''Hello''],
                              top_logprobs = [[(py ''Hello'', -0.5)]]\<rparr>],
       tokenizer_calls = [1, 1]\<rparr> =
     (Inr 1,
      \<lparr>logprobs_objects = [\<lparr>text_offset = [0], token_logprobs = [-0.5], tokens = [py ''Hello''],
                              top_logprobs = [[(py ''Hello'', -0.5)]]\<rparr>,
                            \<lparr>text_offset = [], token_logprobs = [], tokens = [], top_logprobs = []\<rparr>],
       tokenizer_calls = [1, 1]\<rparr>)"
proof -
  let ?h = "\<lparr>logprobs_objects = [\<lparr>text_offset = [0], token_logprobs = [-0.5 :: real],
                              tokens = [py ''Hello''],
                              top_logprobs = [[(py ''Hello'', -0.5 :: real)]]\<rparr>],
       tokenizer_calls = [1, 1]\<rparr>"
  note t = create_logprobs_empty[where tok = sample_tokenizer and b = 13 and h = ?h
      and tok' = sample_tokenizer and b' = 0 and h' = ?h and ids = "[]" and lps = "[]"]
  have 1: "create_logprobs sample_tokenizer [] [] 13 =
     Inr \<lparr>text_offset = [], token_logprobs = [], tokens = [], top_logprobs = []\<rparr>"
    using t[THEN conjunct1] .
  have 2: "create_logprobs_on sample_tokenizer [1] [[(1, -0.5)]] 0
     \<lparr>logprobs_objects = [], tokenizer_calls = []\<rparr> = (Inr 0, ?h)"
    by (simp add: create_logprobs_on_def create_logprobs_body_on_def update_object_def
        empty_Logprobs_def top_logprob_dict_def sample_tokenizer_def py_def Let_def)
  have 3: "create_logprobs_on sample_tokenizer [] [] 13 ?h =
     (Inr 1,
      \<lparr>logprobs_objects = [\<lparr>text_offset = [0], token_logprobs = [-0.5], tokens = [py ''Hello''],
                              top_logprobs = [[(py ''Hello'', -0.5)]]\<rparr>,
                            \<lparr>text_offset = [], token_logprobs = [], tokens = [], top_logprobs = []\<rparr>],
       tokenizer_calls = [1, 1]\<rparr>)"
    using t[THEN conjunct2, THEN conjunct1] by simp
  from 1 2 3 show ?thesis by blast
qed

text \<open>
  Claim C10. \<open>create_logprobs\<close> works on the paired prefix of its two input sequences: the
  call equals the call on both inputs cut to the shorter length; a returned record has
  four lists of that length; the only exception is the \<open>KeyError\<close> of a chosen id missing
  from its map at a paired position, never one for the length mismatch; and when every
  paired position has its chosen id, a record is returned.
\<close>

theorem create_logprobs_zip_prefix:
  "create_logprobs tok ids lps b =
     create_logprobs tok (take (min (length ids) (length lps)) ids)
       (take (min (length ids) (length lps)) lps) b \<and>
   (create_logprobs tok ids lps b = Inr r \<longrightarrow>
      length (tokens r) = min (length ids) (length lps) \<and>
      length (token_logprobs r) = min (length ids) (length lps) \<and>
      length (text_offset r) = min (length ids) (length lps) \<and>
      length (top_logprobs r) = min (length ids) (length lps)) \<and>
   (create_logprobs tok ids lps b = Inl e \<longrightarrow>
      (\<exists>k < min (length ids) (length lps). map_of (lps ! k) (ids ! k) = None \<and> e = KeyError (ids ! k))) \<and>
   ((\<forall>k < min (length ids) (length lps). map_of (lps ! k) (ids ! k) \<noteq> None) \<longrightarrow>
      (\<exists>r'. create_logprobs tok ids lps b = Inr r'))"
proof -
  let ?n = "min (length ids) (length lps)"
  have z: "zip (take ?n ids) (take ?n lps) = zip ids lps"
    by (metis length_zip take_all take_zip order_refl)
  have 1: "create_logprobs tok ids lps b = create_logprobs tok (take ?n ids) (take ?n lps) b"
    by (simp only: create_logprobs_def z)
  have 2: "length (tokens r) = ?n \<and> length (token_logprobs r) = ?n \<and>
      length (text_offset r) = ?n \<and> length (top_logprobs r) = ?n"
    if run: "create_logprobs tok ids lps b = Inr r"
    using create_logprobs_Inr_fields[OF run] by simp
  have 3: "\<exists>k < ?n. map_of (lps ! k) (ids ! k) = None \<and> e = KeyError (ids ! k)"
    if err: "create_logprobs tok ids lps b = Inl e" for e
  proof -
    from err have "create_logprobs_loop tok b (zip ids lps) empty_Logprobs 0 = Inl e"
      by (simp add: create_logprobs_def)
    from create_logprobs_loop_Inl[OF this] obtain tid m where
      mem: "(tid, m) \<in> set (zip ids lps)" and none: "map_of m tid = None" and e: "e = KeyError tid"
      by auto
    from mem obtain k where k: "k < length (zip ids lps)" and zk: "zip ids lps ! k = (tid, m)"
      by (auto simp: in_set_conv_nth)
    from k zk have "ids ! k = tid" "lps ! k = m" "k < ?n" by auto
    with none e show ?thesis by blast
  qed
  have 4: "\<exists>r'. create_logprobs tok ids lps b = Inr r'"
    if all: "\<forall>k < ?n. map_of (lps ! k) (ids ! k) \<noteq> None"
  proof (cases "create_logprobs tok ids lps b")
    case (Inl e')
    from 3[OF Inl] all show ?thesis by blast
  next
    case (Inr r')
    then show ?thesis by blast
  qed
  from 1 2 3 4 show ?thesis by blast
qed

theorem create_logprobs_zip_prefix_witness:
  "create_logprobs sample_tokenizer [1, 2, 3] [[(1, -0.5)]] 0 =
     Inr \<lparr>text_offset = [0], token_logprobs = [-0.5], tokens = [py ''Hello''],
          top_logprobs = [[(py ''Hello'', -0.5)]]\<rparr> \<and>
   length [py ''Hello''] = min (length [1, 2, 3 :: int]) (length [[(1 :: int, -0.5 :: real)]]) \<and>
   length [-0.5 :: real] = min (length [1, 2, 3 :: int]) (length [[(1 :: int, -0.5 :: real)]]) \<and>
   length [0 :: int] = min (length [1, 2, 3 :: int]) (length [[(1 :: int, -0.5 :: real)]]) \<and>
   length [[(py ''Hello'', -0.5 :: real)]] =
     min (length [1, 2, 3 :: int]) (length [[(1 :: int, -0.5 :: real)]])"
proof -
  let ?r = "\<lparr>text_offset = [0], token_logprobs = [-0.5 :: real], tokens = [py ''Hello''],
          top_logprobs = [[(py ''Hello'', -0.5 :: real)]]\<rparr>"
  have run: "create_logprobs sample_tokenizer [1, 2, 3] [[(1, -0.5)]] 0 = Inr ?r"
    by (simp add: create_logprobs_def create_logprobs_body_def empty_Logprobs_def
      top_logprob_dict_def sample_tokenizer_def py_def Let_def)
  note t = create_logprobs_zip_prefix[where tok = sample_tokenizer and ids = "[1, 2, 3]"
      and lps = "[[(1, -0.5)]]" and b = 0 and r = ?r and e = TypeError,
      THEN conjunct2, THEN conjunct1, rule_format, OF run]
  from t have "length [py ''Hello''] = min (length [1, 2, 3 :: int]) (length [[(1 :: int, -0.5 :: real)]]) \<and>
   length [-0.5 :: real] = min (length [1, 2, 3 :: int]) (length [[(1 :: int, -0.5 :: real)]]) \<and>
   length [0 :: int] = min (length [1, 2, 3 :: int]) (length [[(1 :: int, -0.5 :: real)]]) \<and>
   length [[(py ''Hello'', -0.5 :: real)]] =
     min (length [1, 2, 3 :: int]) (length [[(1 :: int, -0.5 :: real)]])"
    by simp
  with run show ?thesis by blast
qed

section \<open>The endpoint: proofs\<close>

text \<open>
  Claim C6. A request with \<open>echo\<close> set, or with a non-empty \<open>suffix\<close>, makes
  \<open>create_completion\<close> raise \<open>HTTPException\<close> with status code 400, and nothing has been done
  by then: no call of \<open>get_model_inputs\<close>, \<open>handle_request\<close> or \<open>engine.generate\<close>, and no
  snapshot taken.
\<close>

theorem create_completion_unsupported:
  assumes "request_echo request \<or> (\<exists>s. request_suffix request = Some s \<and> s \<noteq> [])"
  shows "create_completion env request =
           (Inl (HTTPException 400
                   (if request_echo request then py ''echo is not currently supported''
                    else py ''suffix is not currently supported'')), [])"
  using assms by (auto simp: create_completion_def)

theorem create_completion_unsupported_witness:
  "create_completion sample_environment (sample_request\<lparr>request_echo := True\<rparr>) =
     (Inl (HTTPException 400 (py ''echo is not currently supported'')), []) \<and>
   create_completion sample_environment (sample_request\<lparr>request_suffix := Some (py ''.'')\<rparr>) =
     (Inl (HTTPException 400 (py ''suffix is not currently supported'')), [])"
proof -
  have 1: "create_completion sample_environment (sample_request\<lparr>request_echo := True\<rparr>) =
     (Inl (HTTPException 400 (py ''echo is not currently supported'')), [])"
    using create_completion_unsupported[of "sample_request\<lparr>request_echo := True\<rparr>" sample_environment]
    by simp
  have 2: "create_completion sample_environment (sample_request\<lparr>request_suffix := Some (py ''.'')\<rparr>) =
     (Inl (HTTPException 400 (py ''suffix is not currently supported'')), [])"
    using create_completion_unsupported[of "sample_request\<lparr>request_suffix := Some (py ''.'')\<rparr>" sample_environment]
    by (simp add: sample_request_def py_def)
  from 1 2 show ?thesis by blast
qed



lemma consume_results_Some:
  assumes "consume_results disc rid k0 snaps fr = (Some fr', effects)"
  shows "fr' = (if snaps = [] then fr else Some (last snaps)) \<and> filter is_abort effects = []"
  using assms
proof (induction snaps arbitrary: k0 fr effects)
  case Nil
  then show ?case by simp
next
  case (Cons res rest)
  from Cons.prems have nd: "\<not> disc k0" by (auto split: if_splits)
  with Cons.prems obtain effects' where
    r: "consume_results disc rid (Suc k0) rest (Some res) = (Some fr', effects')"
    and e: "effects = NextSnapshot # IsDisconnected # effects'"
    by (auto split: prod.splits)
  from Cons.IH[OF r] e show ?case by simp
qed



lemma final_choices_Inr:
  "final_choices tok request outs = Inr cs \<Longrightarrow>
   map choice_index cs = map output_index outs \<and>
   map choice_text cs = map (\<lambda>output. strip_replacement (output_text output)) outs \<and>
   map choice_finish_reason cs = map output_finish_reason outs"
proof (induction outs arbitrary: cs)
  case Nil
  then show ?case by simp
next
  case (Cons a outs)
  from Cons.prems obtain lp cs' where
    cs': "final_choices tok request outs = Inr cs'" and
    cs: "cs = \<lparr>choice_index = output_index a, choice_text = strip_replacement (output_text a),
                            choice_finish_reason = output_finish_reason a,
                            choice_logprobs = lp\<rparr> # cs'"
    by (auto simp: Let_def split: sum.splits if_splits)
  from Cons.IH[OF cs'] cs show ?case by simp
qed




lemma sample_non_streaming_response:
  "non_streaming_response sample_tokenizer never_disconnected 1700000000 sample_request
     sample_request_id [sample_snapshot1, sample_snapshot2] =
   (Inr (CompletionResponse sample_completion),
    [NextSnapshot, IsDisconnected, NextSnapshot, IsDisconnected])"
  by (simp add: non_streaming_response_def final_response_def sample_completion_def
      sample_request_def sample_snapshot1_def sample_snapshot2_def never_disconnected_def
      valid_finish_reason_def strip_replacement_def REPLACEMENT_CHARACTER_def py_def Let_def)


text \<open>
  Claim C8. Every \<open>Completion\<close> the non-streaming path returns was built from the last
  snapshot: \<open>usage.prompt_tokens\<close> is the number of its prompt token ids,
  \<open>usage.completion_tokens\<close> is the sum over its outputs (one per choice of the response, in
  order) of the number of token ids, and \<open>usage.total_tokens\<close> is the sum of the two.
\<close>

theorem non_streaming_response_usage:
  assumes "non_streaming_response tok disc now request rid snaps = (Inr (CompletionResponse c), effects)"
  shows "snaps \<noteq> [] \<and>
         completion_usage c =
           Some \<lparr>prompt_tokens = length (prompt_token_ids (last snaps)),
                 completion_tokens = sum_list (map (\<lambda>output. length (output_token_ids output))
                                                  (outputs (last snaps))),
                 total_tokens = length (prompt_token_ids (last snaps)) +
                                sum_list (map (\<lambda>output. length (output_token_ids output))
                                            (outputs (last snaps)))\<rparr> \<and>
         map choice_index (completion_choices c) = map output_index (outputs (last snaps)) \<and>
         (\<forall>u. completion_usage c = Some u \<longrightarrow> total_tokens u = prompt_tokens u + completion_tokens u)"
proof -
  from assms obtain fr where
    cr: "consume_results disc rid 0 snaps None = (Some fr, effects)" and
    fin: "final_response tok request rid now fr = Inr c"
    by (auto simp: non_streaming_response_def split: prod.splits option.splits sum.splits)
  from consume_results_Some[OF cr] have fr: "fr = (if snaps = [] then None else Some (last snaps))"
    by simp
  from fin fr have ne: "snaps \<noteq> []" by (auto simp: final_response_def)
  with fr have fr': "fr = Some (last snaps)" by simp
  from fin fr' obtain cs where
    cs: "final_choices tok request (outputs (last snaps)) = Inr cs" and
    c: "c = \<lparr>completion_id = rid, completion_choices = cs, completion_created = now,
             completion_model = request_model request, completion_object = py ''text_completion'',
             completion_usage =
               Some \<lparr>prompt_tokens = length (prompt_token_ids (last snaps)),
                 completion_tokens = sum_list (map (\<lambda>output. length (output_token_ids output))
                                                  (outputs (last snaps))),
                 total_tokens = length (prompt_token_ids (last snaps)) +
                                sum_list (map (\<lambda>output. length (output_token_ids output))
                                            (outputs (last snaps)))\<rparr>\<rparr>"
    by (auto simp: final_response_def Let_def split: sum.splits)
  from final_choices_Inr[OF cs] c ne show ?thesis by auto
qed

theorem non_streaming_response_usage_witness:
  "non_streaming_response sample_tokenizer never_disconnected 1700000000 sample_request
     sample_request_id [sample_snapshot1, sample_snapshot2] =
   (Inr (CompletionResponse sample_completion),
    [NextSnapshot, IsDisconnected, NextSnapshot, IsDisconnected]) \<and>
   completion_usage sample_completion =
     Some \<lparr>prompt_tokens = 1, completion_tokens = 3, total_tokens = 4\<rparr>"
proof -
  note run = sample_non_streaming_response
  from non_streaming_response_usage[OF run]
  have "completion_usage sample_completion =
     Some \<lparr>prompt_tokens = 1, completion_tokens = 3, total_tokens = 4\<rparr>"
    by (simp add: sample_snapshot2_def)
  with run show ?thesis by blast
qed

section \<open>The stream generator: proofs\<close>

lemma list_position_Some:
  "list_position xs i = Some slot \<longleftrightarrow>
     (if i < 0 then 0 \<le> int (length xs) + i \<and> slot = nat (int (length xs) + i)
      else i < int (length xs) \<and> slot = nat i)"
  by (auto simp: list_position_def Let_def)


lemma list_position_nonneg:
  "0 \<le> i \<Longrightarrow> list_position xs i = Some slot \<Longrightarrow> slot = nat i \<and> nat i < length xs"
  by (auto simp: list_position_def Let_def split: if_splits)

lemma stream_output_Inr:
  assumes "stream_output tok request rid time st output = Inr (ys, st')"
  shows "\<exists>slot slot' lp.
     list_position (previous_texts st) (output_index output) = Some slot \<and>
     list_position (previous_num_tokens st) (output_index output) = Some slot' \<and>
     (if request_logprobs request \<noteq> None
      then (case output_logprobs output of
              None \<Rightarrow> Inl TypeError
            | Some id_logprobs \<Rightarrow>
                map_sum id Some
                  (create_logprobs tok
                     (drop (previous_num_tokens st ! slot') (output_token_ids output))
                     (drop (previous_num_tokens st ! slot') id_logprobs)
                     (int (length (previous_texts st ! slot)))))
      else Inr None) = Inr lp \<and>
     previous_texts st' = (previous_texts st)[slot := strip_replacement (output_text output)] \<and>
     previous_num_tokens st' = (previous_num_tokens st)[slot' := length (output_token_ids output)] \<and>
     clock_reads st' = clock_reads st + length ys \<and>
     ys = content_chunk request rid (time (clock_reads st)) (output_index output)
            (drop (length (previous_texts st ! slot)) (strip_replacement (output_text output))) lp #
          (if output_finish_reason output \<noteq> None
           then [terminal_chunk request rid (time (Suc (clock_reads st))) (output_index output)
                   (drop (length (previous_texts st ! slot)) (strip_replacement (output_text output)))]
           else [])"
proof (cases "list_position (previous_texts st) (output_index output)")
  case None
  with assms show ?thesis by (simp add: stream_output_def Let_def)
next
  case (Some slot)
  note pos = Some
  show ?thesis
  proof (cases "list_position (previous_num_tokens st) (output_index output)")
    case None
    with assms pos show ?thesis by (simp add: stream_output_def Let_def)
  next
    case (Some slot')
    show ?thesis
    proof (cases "(if request_logprobs request \<noteq> None
      then (case output_logprobs output of
              None \<Rightarrow> Inl TypeError
            | Some id_logprobs \<Rightarrow>
                map_sum id Some
                  (create_logprobs tok
                     (drop (previous_num_tokens st ! slot') (output_token_ids output))
                     (drop (previous_num_tokens st ! slot') id_logprobs)
                     (int (length (previous_texts st ! slot)))))
      else Inr None)")
      case (Inl e)
      with assms pos Some show ?thesis by (simp add: stream_output_def Let_def)
    next
      case (Inr lp)
      with assms pos Some show ?thesis
        by (cases "output_finish_reason output")
           (auto simp: stream_output_def Let_def content_chunk_def terminal_chunk_def)
    qed
  qed
qed






subsection \<open>The loops\<close>

lemma stream_outputs_append:
  "stream_outputs tok request rid time st (xs @ zs) =
     (case stream_outputs tok request rid time st xs of
        (ys, Inl e) \<Rightarrow> (ys, Inl e)
      | (ys, Inr st') \<Rightarrow>
          (case stream_outputs tok request rid time st' zs of (ys', r) \<Rightarrow> (ys @ ys', r)))"
proof (induction xs arbitrary: st)
  case Nil
  then show ?case by (simp split: prod.splits)
next
  case (Cons a xs)
  show ?case
  proof (cases "stream_output tok request rid time st a")
    case (Inl e)
    then show ?thesis by simp
  next
    case (Inr q)
    obtain ys1 st1 where q: "q = (ys1, st1)" by (cases q)
    show ?thesis using Inr q Cons.IH[of st1]
      by (simp split: prod.splits sum.splits)
  qed
qed

lemma stream_results_flat:
  "stream_results tok request rid time st snaps =
     stream_outputs tok request rid time st (concat (map outputs snaps))"
proof (induction snaps arbitrary: st)
  case Nil
  then show ?case by simp
next
  case (Cons res snaps)
  show ?case
    by (simp add: stream_outputs_append Cons.IH split: prod.splits sum.splits)
qed

lemma content_deltas_append:
  "content_deltas i (xs @ ys) = content_deltas i xs @ content_deltas i ys"
  by (simp add: content_deltas_def)

lemma content_deltas_Nil: "content_deltas i [] = []"
  by (simp add: content_deltas_def)

lemma stream_outputs_Cons_Inr:
  assumes "stream_outputs tok request rid time st (a # outs) = (ys, Inr st')"
  shows "\<exists>ys1 st1 ys2. stream_output tok request rid time st a = Inr (ys1, st1) \<and>
           stream_outputs tok request rid time st1 outs = (ys2, Inr st') \<and> ys = ys1 @ ys2"
  using assms by (auto split: sum.splits prod.splits)

lemma stream_outputs_lengths:
  assumes "stream_outputs tok request rid time st outs = (ys, Inr st')"
  shows "length (previous_texts st') = length (previous_texts st) \<and>
         length (previous_num_tokens st') = length (previous_num_tokens st)"
  using assms
proof (induction outs arbitrary: st ys)
  case Nil
  then show ?case by simp
next
  case (Cons a outs)
  from stream_outputs_Cons_Inr[OF Cons.prems] obtain ys1 st1 ys2 where
    b: "stream_output tok request rid time st a = Inr (ys1, st1)" and
    r: "stream_outputs tok request rid time st1 outs = (ys2, Inr st')" by blast
  from stream_output_Inr[OF b] obtain slot slot' where
    "previous_texts st1 = (previous_texts st)[slot := strip_replacement (output_text a)]"
    "previous_num_tokens st1 = (previous_num_tokens st)[slot' := length (output_token_ids a)]"
    by blast
  then have
    "length (previous_texts st1) = length (previous_texts st) \<and>
     length (previous_num_tokens st1) = length (previous_num_tokens st)" by simp
  with Cons.IH[OF r] show ?case by simp
qed


lemma content_deltas_step:
  "content_deltas i
     (content_chunk request rid created j delta lp #
      (if fin then [terminal_chunk request rid created' j delta] else [])) =
   (if j = i then delta else [])"
  by (simp add: content_deltas_def content_chunk_def terminal_chunk_def)

lemma prefix_append_drop: "prefix p t \<Longrightarrow> p @ drop (length p) t = t"
  by (auto simp: prefix_def)

lemma stream_outputs_deltas:
  assumes run: "stream_outputs tok request rid time st outs = (ys, Inr st')"
    and nonneg: "\<forall>output\<in>set outs. 0 \<le> output_index output"
    and i0: "0 \<le> i" and lt: "nat i < length (previous_texts st)"
    and g: "grows (previous_texts st ! nat i) (choice_texts i outs)"
  shows "previous_texts st ! nat i @ content_deltas i ys = previous_texts st' ! nat i \<and>
         previous_texts st' ! nat i = last (previous_texts st ! nat i # choice_texts i outs)"
  using run nonneg lt g
proof (induction outs arbitrary: st ys)
  case Nil
  then show ?case by (simp add: content_deltas_Nil choice_texts_def)
next
  case (Cons a outs)
  from stream_outputs_Cons_Inr[OF Cons.prems(1)] obtain ys1 st1 ys2 where
    b: "stream_output tok request rid time st a = Inr (ys1, st1)" and
    r: "stream_outputs tok request rid time st1 outs = (ys2, Inr st')" and
    ys: "ys = ys1 @ ys2" by blast
  from stream_output_Inr[OF b] obtain slot lp where
    pos: "list_position (previous_texts st) (output_index a) = Some slot" and
    pt: "previous_texts st1 = (previous_texts st)[slot := strip_replacement (output_text a)]" and
    ys1: "ys1 = content_chunk request rid (time (clock_reads st)) (output_index a)
            (drop (length (previous_texts st ! slot)) (strip_replacement (output_text a))) lp #
          (if output_finish_reason a \<noteq> None
           then [terminal_chunk request rid (time (Suc (clock_reads st))) (output_index a)
                   (drop (length (previous_texts st ! slot)) (strip_replacement (output_text a)))]
           else [])"
    by blast
  from Cons.prems(2) have a0: "0 \<le> output_index a" by simp
  from list_position_nonneg[OF a0 pos] have slot: "slot = nat (output_index a)" by simp
  have d1: "content_deltas i ys1 =
      (if output_index a = i
       then drop (length (previous_texts st ! slot)) (strip_replacement (output_text a)) else [])"
    unfolding ys1 by (rule content_deltas_step)
  have nn: "\<forall>output\<in>set outs. 0 \<le> output_index output" using Cons.prems(2) by simp
  have lt1: "nat i < length (previous_texts st1)" using Cons.prems(3) pt by simp
  show ?case
  proof (cases "output_index a = i")
    case True
    with slot have si: "slot = nat i" by simp
    from True have ct: "choice_texts i (a # outs) =
        strip_replacement (output_text a) # choice_texts i outs"
      by (simp add: choice_texts_def)
    from Cons.prems(4) ct have
      pre: "prefix (previous_texts st ! nat i) (strip_replacement (output_text a))" and
      g1: "grows (strip_replacement (output_text a)) (choice_texts i outs)" by simp_all
    have p1: "previous_texts st1 ! nat i = strip_replacement (output_text a)"
      using pt si Cons.prems(3) by simp
    from Cons.IH[OF r nn lt1] g1 p1 have ih:
      "strip_replacement (output_text a) @ content_deltas i ys2 = previous_texts st' ! nat i"
      "previous_texts st' ! nat i = last (strip_replacement (output_text a) # choice_texts i outs)"
      by simp_all
    have "previous_texts st ! nat i @ content_deltas i ys =
          (previous_texts st ! nat i @
             drop (length (previous_texts st ! nat i)) (strip_replacement (output_text a))) @
          content_deltas i ys2"
      using ys d1 True si by (simp add: content_deltas_append)
    also have "\<dots> = strip_replacement (output_text a) @ content_deltas i ys2"
      using prefix_append_drop[OF pre] by simp
    finally have 1: "previous_texts st ! nat i @ content_deltas i ys = previous_texts st' ! nat i"
      using ih(1) by simp
    have 2: "previous_texts st' ! nat i = last (previous_texts st ! nat i # choice_texts i (a # outs))"
      using ih(2) ct by simp
    from 1 2 show ?thesis by blast
  next
    case False
    with slot a0 i0 have ne: "slot \<noteq> nat i" by auto
    from False have ct: "choice_texts i (a # outs) = choice_texts i outs"
      by (simp add: choice_texts_def)
    have p1: "previous_texts st1 ! nat i = previous_texts st ! nat i"
      using pt ne by simp
    from Cons.prems(4) ct p1 have g1: "grows (previous_texts st1 ! nat i) (choice_texts i outs)"
      by simp
    from Cons.IH[OF r nn lt1 g1] p1 have ih:
      "previous_texts st ! nat i @ content_deltas i ys2 = previous_texts st' ! nat i"
      "previous_texts st' ! nat i = last (previous_texts st ! nat i # choice_texts i outs)"
      by simp_all
    have "content_deltas i ys = content_deltas i ys2"
      using ys d1 False by (simp add: content_deltas_append)
    with ih ct show ?thesis by simp
  qed
qed

lemma stream_outputs_position:
  assumes run: "stream_outputs tok request rid time st outs = (ys, Inr st')"
    and mem: "output \<in> set outs"
  shows "list_position (previous_texts st) (output_index output) \<noteq> None"
  using run mem
proof (induction outs arbitrary: st ys)
  case Nil
  then show ?case by simp
next
  case (Cons a outs)
  from stream_outputs_Cons_Inr[OF Cons.prems(1)] obtain ys1 st1 ys2 where
    b: "stream_output tok request rid time st a = Inr (ys1, st1)" and
    r: "stream_outputs tok request rid time st1 outs = (ys2, Inr st')" by blast
  from stream_output_Inr[OF b] obtain slot where
    pos: "list_position (previous_texts st) (output_index a) = Some slot" and
    pt: "previous_texts st1 = (previous_texts st)[slot := strip_replacement (output_text a)]"
    by blast
  show ?case
  proof (cases "output = a")
    case True
    with pos show ?thesis by simp
  next
    case False
    with Cons.prems(2) have "output \<in> set outs" by simp
    from Cons.IH[OF r this] have "list_position (previous_texts st1) (output_index output) \<noteq> None" .
    moreover have "length (previous_texts st1) = length (previous_texts st)" using pt by simp
    ultimately show ?thesis by (simp add: list_position_def)
  qed
qed

lemma filter_distinct_key:
  assumes "distinct (map f xs)" and "x \<in> set xs"
  shows "filter (\<lambda>y. f y = f x) xs = [x]"
  using assms
proof (induction xs)
  case Nil
  then show ?case by simp
next
  case (Cons a xs)
  show ?case
  proof (cases "a = x")
    case True
    with Cons.prems(1) have "f x \<notin> f ` set xs" by simp
    then have "\<forall>y\<in>set xs. f y \<noteq> f x" by (metis imageI)
    then have "filter (\<lambda>y. f y = f x) xs = []" by (simp add: filter_empty_conv)
    with True show ?thesis by simp
  next
    case False
    with Cons.prems have x: "x \<in> set xs" and d: "distinct (map f xs)" by auto
    from Cons.prems(1) have "f a \<notin> f ` set xs" by simp
    with x have "f a \<noteq> f x" by (metis imageI)
    with Cons.IH[OF d x] show ?thesis by simp
  qed
qed


lemma non_streaming_response_Completion:
  assumes "non_streaming_response tok disc now request rid snaps = (Inr (CompletionResponse c), effects)"
  shows "snaps \<noteq> [] \<and>
         (\<exists>cs. final_choices tok request (outputs (last snaps)) = Inr cs \<and> completion_choices c = cs)"
proof -
  from assms obtain fr where
    cr: "consume_results disc rid 0 snaps None = (Some fr, effects)" and
    fin: "final_response tok request rid now fr = Inr c"
    by (auto simp: non_streaming_response_def split: prod.splits option.splits sum.splits)
  from consume_results_Some[OF cr] have fr: "fr = (if snaps = [] then None else Some (last snaps))"
    by simp
  from fin fr have ne: "snaps \<noteq> []" by (auto simp: final_response_def)
  with fr have fr': "fr = Some (last snaps)" by simp
  from fin fr' obtain cs where
    "final_choices tok request (outputs (last snaps)) = Inr cs" "completion_choices c = cs"
    by (auto simp: final_response_def Let_def split: sum.splits)
  with ne show ?thesis by blast
qed

lemma stream_deltas_normal_end:
  assumes stream: "generate_completion_stream_chunks tok request rid time snaps = (ys, Inr st)"
    and idx: "\<forall>res\<in>set snaps. \<forall>output\<in>set (outputs res). 0 \<le> output_index output"
    and mono: "grows [] (choice_texts i (concat (map outputs snaps)))"
    and agg: "non_streaming_response tok disc now request rid snaps =
                (Inr (CompletionResponse c), effects)"
    and dist: "distinct (map output_index (outputs (last snaps)))"
  shows "\<forall>ch\<in>set (completion_choices c). choice_index ch = i \<longrightarrow> choice_text ch = content_deltas i ys"
proof (intro ballI impI)
  fix ch
  assume ch: "ch \<in> set (completion_choices c)" and chi: "choice_index ch = i"
  let ?flat = "concat (map outputs snaps)"
  let ?st0 = "initial_stream_state request"
  let ?outs = "outputs (last snaps)"
  from stream have run: "stream_outputs tok request rid time ?st0 ?flat = (ys, Inr st)"
    by (simp add: generate_completion_stream_chunks_def stream_results_flat)
  from non_streaming_response_Completion[OF agg] obtain cs where
    ne: "snaps \<noteq> []" and
    fc: "final_choices tok request ?outs = Inr cs" and
    cs: "completion_choices c = cs" by blast
  from final_choices_Inr[OF fc] have
    mi: "map choice_index cs = map output_index ?outs" and
    mt: "map choice_text cs = map (\<lambda>output. strip_replacement (output_text output)) ?outs"
    by simp_all
  from ch cs obtain k where k: "k < length cs" and chk: "ch = cs ! k"
    by (auto simp: in_set_conv_nth)
  from mi have len: "length cs = length ?outs" by (metis length_map)
  define out where "out = ?outs ! k"
  from k len have mem: "out \<in> set ?outs" by (simp add: out_def)
  have oi: "output_index out = i"
  proof -
    have "map choice_index cs ! k = map output_index ?outs ! k" using mi by simp
    with k len chk chi show ?thesis by (simp add: out_def)
  qed
  have ot: "choice_text ch = strip_replacement (output_text out)"
  proof -
    have "map choice_text cs ! k =
          map (\<lambda>output. strip_replacement (output_text output)) ?outs ! k" using mt by simp
    with k len chk show ?thesis by (simp add: out_def)
  qed
  from ne have lastmem: "last snaps \<in> set snaps" by simp
  with mem have memflat: "out \<in> set ?flat" by auto
  from idx lastmem mem oi have i0: "0 \<le> i" by blast
  from idx have nonneg: "\<forall>output\<in>set ?flat. 0 \<le> output_index output" by auto
  from stream_outputs_position[OF run memflat] oi obtain slot where
    "list_position (previous_texts ?st0) i = Some slot" by auto
  from list_position_nonneg[OF i0 this] have lt: "nat i < length (previous_texts ?st0)" by simp
  then have init: "previous_texts ?st0 ! nat i = []"
    by (simp add: initial_stream_state_def)
  from mono init have g: "grows (previous_texts ?st0 ! nat i) (choice_texts i ?flat)" by simp
  from stream_outputs_deltas[OF run nonneg i0 lt g] init
  have eq: "content_deltas i ys = last ([] # choice_texts i ?flat)" by simp
  have "concat (map outputs (butlast snaps @ [last snaps])) =
        concat (map outputs (butlast snaps)) @ ?outs" by simp
  with append_butlast_last_id[OF ne]
  have "?flat = concat (map outputs (butlast snaps)) @ ?outs" by simp
  then have "choice_texts i ?flat =
      choice_texts i (concat (map outputs (butlast snaps))) @ choice_texts i ?outs"
    by (simp add: choice_texts_def)
  moreover have "choice_texts i ?outs = [strip_replacement (output_text out)]"
    using filter_distinct_key[OF dist mem] oi by (simp add: choice_texts_def)
  ultimately have "last ([] # choice_texts i ?flat) = strip_replacement (output_text out)"
    by simp
  with eq ot show "choice_text ch = content_deltas i ys" by simp
qed

lemma sample_pair_stream:
  "generate_completion_stream_chunks sample_tokenizer sample_pair_request sample_request_id sample_time
     [sample_pair_snapshot1, sample_pair_snapshot2] = (sample_pair_chunks, Inr sample_pair_final_state)"
  by (simp add: generate_completion_stream_chunks_def initial_stream_state_def stream_output_def
      list_position_def sample_pair_chunks_def sample_pair_final_state_def content_chunk_def
      terminal_chunk_def sample_pair_request_def sample_request_def sample_pair_snapshot1_def
      sample_pair_snapshot2_def sample_time_def strip_replacement_def REPLACEMENT_CHARACTER_def
      create_logprobs_def create_logprobs_body_def empty_Logprobs_def top_logprob_dict_def
      sample_tokenizer_def py_def Let_def numeral_2_eq_2)

lemma sample_pair_non_streaming_response:
  "non_streaming_response sample_tokenizer never_disconnected 1700000000 sample_pair_request
     sample_request_id [sample_pair_snapshot1, sample_pair_snapshot2] =
   (Inr (CompletionResponse sample_pair_completion),
    [NextSnapshot, IsDisconnected, NextSnapshot, IsDisconnected])"
  by (simp add: non_streaming_response_def final_response_def sample_pair_completion_def
      sample_pair_request_def sample_request_def sample_pair_snapshot1_def sample_pair_snapshot2_def
      never_disconnected_def valid_finish_reason_def strip_replacement_def REPLACEMENT_CHARACTER_def
      create_logprobs_def create_logprobs_body_def empty_Logprobs_def top_logprob_dict_def
      sample_tokenizer_def py_def Let_def)

lemma sample_snapshot1_stream:
  "generate_completion_stream_chunks sample_tokenizer sample_request sample_request_id sample_time
     [sample_snapshot1] =
   ([content_chunk sample_request sample_request_id 1700000000 0 (py ''Hello,'') None],
    Inr \<lparr>previous_texts = [py ''Hello,''], previous_num_tokens = [2], clock_reads = 1\<rparr>)"
  by (simp add: generate_completion_stream_chunks_def initial_stream_state_def stream_output_def
      list_position_def content_chunk_def sample_request_def sample_snapshot1_def
      sample_time_def strip_replacement_def REPLACEMENT_CHARACTER_def py_def Let_def)

lemma terminal_for_block:
  "length (filter (terminal_for i)
     (content_chunk request rid created j delta lp #
      (if fin then [terminal_chunk request rid created' j delta] else []))) =
   (if fin \<and> j = i then 1 else 0)"
  by (simp add: terminal_for_def content_chunk_def terminal_chunk_def)

lemma stream_outputs_terminal_count:
  assumes "stream_outputs tok request rid time st outs = (ys, Inr st')"
  shows "length (filter (terminal_for i) ys) = length (filter (finishes i) outs)"
  using assms
proof (induction outs arbitrary: st ys)
  case Nil
  then show ?case by simp
next
  case (Cons a outs)
  from stream_outputs_Cons_Inr[OF Cons.prems] obtain ys1 st1 ys2 where
    b: "stream_output tok request rid time st a = Inr (ys1, st1)" and
    r: "stream_outputs tok request rid time st1 outs = (ys2, Inr st')" and
    ys: "ys = ys1 @ ys2" by blast
  from stream_output_Inr[OF b] obtain slot lp where
    ys1: "ys1 = content_chunk request rid (time (clock_reads st)) (output_index a)
            (drop (length (previous_texts st ! slot)) (strip_replacement (output_text a))) lp #
          (if output_finish_reason a \<noteq> None
           then [terminal_chunk request rid (time (Suc (clock_reads st))) (output_index a)
                   (drop (length (previous_texts st ! slot)) (strip_replacement (output_text a)))]
           else [])"
    by blast
  have "length (filter (terminal_for i) ys1) =
        (if output_finish_reason a \<noteq> None \<and> output_index a = i then 1 else 0)"
    unfolding ys1 by (rule terminal_for_block)
  also have "\<dots> = length (filter (finishes i) [a])" by (simp add: finishes_def)
  finally have 1: "length (filter (terminal_for i) ys1) = length (filter (finishes i) [a])" .
  have "length (filter (terminal_for i) ys) =
        length (filter (terminal_for i) ys1) + length (filter (terminal_for i) ys2)"
    using ys by simp
  also have "\<dots> = length (filter (finishes i) [a]) + length (filter (finishes i) outs)"
    using 1 Cons.IH[OF r] by simp
  also have "\<dots> = length (filter (finishes i) (a # outs))" by simp
  finally show ?case .
qed

lemma stream_outputs_blocks:
  assumes "stream_outputs tok request rid time st outs = (ys, Inr st')"
  shows "\<exists>blocks. ys = concat blocks \<and> list_all2 (output_block request rid) outs blocks"
  using assms
proof (induction outs arbitrary: st ys)
  case Nil
  then have "ys = concat [] \<and> list_all2 (output_block request rid) [] []" by simp
  then show ?case by blast
next
  case (Cons a outs)
  from stream_outputs_Cons_Inr[OF Cons.prems] obtain ys1 st1 ys2 where
    b: "stream_output tok request rid time st a = Inr (ys1, st1)" and
    r: "stream_outputs tok request rid time st1 outs = (ys2, Inr st')" and
    ys: "ys = ys1 @ ys2" by blast
  from stream_output_Inr[OF b] obtain slot lp where
    ys1: "ys1 = content_chunk request rid (time (clock_reads st)) (output_index a)
            (drop (length (previous_texts st ! slot)) (strip_replacement (output_text a))) lp #
          (if output_finish_reason a \<noteq> None
           then [terminal_chunk request rid (time (Suc (clock_reads st))) (output_index a)
                   (drop (length (previous_texts st ! slot)) (strip_replacement (output_text a)))]
           else [])"
    by blast
  then have ob: "output_block request rid a ys1"
    unfolding output_block_def by blast
  from Cons.IH[OF r] obtain blocks where
    bl: "ys2 = concat blocks" "list_all2 (output_block request rid) outs blocks" by blast
  from ys bl ob have "ys = concat (ys1 # blocks) \<and>
      list_all2 (output_block request rid) (a # outs) (ys1 # blocks)" by simp
  then show ?case by blast
qed


subsection \<open>The generator ends normally on well-formed snapshots\<close>

lemma list_position_in_range:
  "0 \<le> i \<Longrightarrow> i < int (length xs) \<Longrightarrow> list_position xs i = Some (nat i)"
  by (simp add: list_position_def Let_def)

lemma logprobs_present_slice:
  assumes "logprobs_present output"
  shows "\<exists>id_logprobs r. output_logprobs output = Some id_logprobs \<and>
           create_logprobs tok (drop k (output_token_ids output)) (drop k id_logprobs) b = Inr r"
proof -
  from assms obtain ls where ls: "output_logprobs output = Some ls" and
    all: "list_all (\<lambda>(token_id, id_logprob). map_of id_logprob token_id \<noteq> None)
            (zip (output_token_ids output) ls)"
    by (auto simp: logprobs_present_def split: option.splits)
  have "set (zip (drop k (output_token_ids output)) (drop k ls)) \<subseteq>
        set (zip (output_token_ids output) ls)"
    by (metis drop_zip set_drop_subset)
  with all have "\<forall>(tid, m) \<in> set (zip (drop k (output_token_ids output)) (drop k ls)).
      map_of m tid \<noteq> None"
    by (auto simp: list_all_iff)
  from create_logprobs_loop_total[OF this, of tok b empty_Logprobs 0] ls
  show ?thesis by (simp add: create_logprobs_def)
qed

lemma stream_output_total:
  assumes ok: "stream_output_ok request output"
    and n: "length (previous_texts st) = nat (request_n request)"
    and n': "length (previous_num_tokens st) = nat (request_n request)"
  shows "\<exists>ys st'. stream_output tok request rid time st output = Inr (ys, st')"
proof -
  from ok have i0: "0 \<le> output_index output" and i1: "output_index output < request_n request"
    by (simp_all add: stream_output_ok_def)
  from i0 i1 n have p: "list_position (previous_texts st) (output_index output) =
      Some (nat (output_index output))"
    by (intro list_position_in_range) auto
  from i0 i1 n' have p': "list_position (previous_num_tokens st) (output_index output) =
      Some (nat (output_index output))"
    by (intro list_position_in_range) auto
  show ?thesis
  proof (cases "request_logprobs request = None")
    case True
    with p p' show ?thesis
      by (cases "output_finish_reason output") (simp_all add: stream_output_def Let_def)
  next
    case False
    with ok have "logprobs_present output" by (simp add: stream_output_ok_def)
    from logprobs_present_slice[OF this,
        of tok "previous_num_tokens st ! nat (output_index output)"
           "int (length (previous_texts st ! nat (output_index output)))"]
    obtain ls r where "output_logprobs output = Some ls"
      "create_logprobs tok
         (drop (previous_num_tokens st ! nat (output_index output)) (output_token_ids output))
         (drop (previous_num_tokens st ! nat (output_index output)) ls)
         (int (length (previous_texts st ! nat (output_index output)))) = Inr r"
      by blast
    with False p p' show ?thesis
      by (cases "output_finish_reason output") (simp_all add: stream_output_def Let_def)
  qed
qed

lemma stream_outputs_total:
  assumes "\<forall>output\<in>set outs. stream_output_ok request output"
    and "length (previous_texts st) = nat (request_n request)"
    and "length (previous_num_tokens st) = nat (request_n request)"
  shows "\<exists>ys st'. stream_outputs tok request rid time st outs = (ys, Inr st')"
  using assms
proof (induction outs arbitrary: st)
  case Nil
  then show ?case by simp
next
  case (Cons a outs)
  from Cons.prems(1) have ok: "stream_output_ok request a" and
    rest: "\<forall>output\<in>set outs. stream_output_ok request output" by simp_all
  from stream_output_total[OF ok Cons.prems(2) Cons.prems(3), of tok rid time]
  obtain ys1 st1 where b: "stream_output tok request rid time st a = Inr (ys1, st1)" by blast
  from stream_output_Inr[OF b] obtain slot slot' where
    "previous_texts st1 = (previous_texts st)[slot := strip_replacement (output_text a)]"
    "previous_num_tokens st1 = (previous_num_tokens st)[slot' := length (output_token_ids a)]"
    by blast
  with Cons.prems(2) Cons.prems(3) have
    l1: "length (previous_texts st1) = nat (request_n request)" and
    l2: "length (previous_num_tokens st1) = nat (request_n request)" by simp_all
  from Cons.IH[OF rest l1 l2] obtain ys2 st' where
    "stream_outputs tok request rid time st1 outs = (ys2, Inr st')" by blast
  with b show ?case by simp
qed

lemma generate_completion_stream_chunks_total:
  assumes "\<forall>res\<in>set snaps. \<forall>output\<in>set (outputs res). stream_output_ok request output"
  shows "\<exists>ys st. generate_completion_stream_chunks tok request rid time snaps = (ys, Inr st)"
proof -
  from assms have "\<forall>output\<in>set (concat (map outputs snaps)). stream_output_ok request output"
    by auto
  from stream_outputs_total[OF this, of "initial_stream_state request" tok rid time]
  show ?thesis
    by (simp add: generate_completion_stream_chunks_def stream_results_flat initial_stream_state_def)
qed

text \<open>
  Claim C1. Let every output of a snapshot sequence keep the engine's side of the
  contract (a choice index among \<open>0, \<dots>, n - 1\<close>, and log-probabilities with every chosen
  id among its candidates when they were requested), and let the stripped texts of choice
  \<open>i\<close> grow monotonically over the sequence. Then the generator runs over the sequence to
  its end without an exception. Let the non-streaming path return a \<open>Completion\<close> for the
  same sequence, the indices of the last snapshot's outputs being distinct. Then the text
  of the choice with index \<open>i\<close> of that \<open>Completion\<close> is the concatenation of the delta texts of
  the content chunks the generator yields for choice \<open>i\<close>.
\<close>

theorem stream_deltas_equal_full_text:
  assumes ok: "\<forall>res\<in>set snaps. \<forall>output\<in>set (outputs res). stream_output_ok request output"
    and mono: "grows [] (choice_texts i (concat (map outputs snaps)))"
    and agg: "non_streaming_response tok disc now request rid snaps =
                (Inr (CompletionResponse c), effects)"
    and dist: "distinct (map output_index (outputs (last snaps)))"
  shows "\<exists>ys st. generate_completion_stream_chunks tok request rid time snaps = (ys, Inr st) \<and>
           (\<forall>ch\<in>set (completion_choices c).
              choice_index ch = i \<longrightarrow> choice_text ch = content_deltas i ys)"
proof -
  from generate_completion_stream_chunks_total[OF ok, of tok rid time] obtain ys st where
    run: "generate_completion_stream_chunks tok request rid time snaps = (ys, Inr st)" by blast
  from ok have idx: "\<forall>res\<in>set snaps. \<forall>output\<in>set (outputs res). 0 \<le> output_index output"
    by (simp add: stream_output_ok_def)
  from stream_deltas_normal_end[OF run idx mono agg dist]
  have "\<forall>ch\<in>set (completion_choices c). choice_index ch = i \<longrightarrow> choice_text ch = content_deltas i ys" .
  with run show ?thesis by blast
qed

theorem stream_deltas_equal_full_text_witness:
  "non_streaming_response sample_tokenizer never_disconnected 1700000000 sample_pair_request
     sample_request_id [sample_pair_snapshot1, sample_pair_snapshot2] =
     (Inr (CompletionResponse sample_pair_completion),
      [NextSnapshot, IsDisconnected, NextSnapshot, IsDisconnected]) \<and>
   generate_completion_stream_chunks sample_tokenizer sample_pair_request sample_request_id sample_time
     [sample_pair_snapshot1, sample_pair_snapshot2] = (sample_pair_chunks, Inr sample_pair_final_state) \<and>
   map choice_text (completion_choices sample_pair_completion) = [py ''Hello,'', py '',''] \<and>
   py ''Hello,'' = content_deltas 0 sample_pair_chunks \<and>
   py '','' = content_deltas 1 sample_pair_chunks"
proof -
  note agg = sample_pair_non_streaming_response
  note stream = sample_pair_stream
  have ok: "\<forall>res\<in>set [sample_pair_snapshot1, sample_pair_snapshot2].
              \<forall>output\<in>set (outputs res). stream_output_ok sample_pair_request output"
    by (simp add: stream_output_ok_def logprobs_present_def sample_pair_request_def
        sample_request_def sample_pair_snapshot1_def sample_pair_snapshot2_def)
  have dist: "distinct (map output_index (outputs (last [sample_pair_snapshot1, sample_pair_snapshot2])))"
    by (simp add: sample_pair_snapshot2_def)
  have mono0: "grows [] (choice_texts 0 (concat (map outputs [sample_pair_snapshot1, sample_pair_snapshot2])))"
    by (simp add: choice_texts_def sample_pair_snapshot1_def sample_pair_snapshot2_def
        strip_replacement_def REPLACEMENT_CHARACTER_def py_def)
  have mono1: "grows [] (choice_texts 1 (concat (map outputs [sample_pair_snapshot1, sample_pair_snapshot2])))"
    by (simp add: choice_texts_def sample_pair_snapshot1_def sample_pair_snapshot2_def
        strip_replacement_def REPLACEMENT_CHARACTER_def py_def)
  have cs: "completion_choices sample_pair_completion =
     [\<lparr>choice_index = 0, choice_text = py ''Hello,'',
          choice_finish_reason = Some (py ''stop''),
          choice_logprobs =
            Some \<lparr>text_offset = [0, 5], token_logprobs = [-0.5, -0.25],
                   tokens = [py ''Hello'', py '',''],
                   top_logprobs = [[(py ''Hello'', -0.5)], [(py '','', -0.25)]]\<rparr>\<rparr>,
         \<lparr>choice_index = 1, choice_text = py '','',
          choice_finish_reason = Some (py ''length''),
          choice_logprobs =
            Some \<lparr>text_offset = [0], token_logprobs = [-0.25], tokens = [py '',''],
                   top_logprobs = [[(py '','', -0.25)]]\<rparr>\<rparr>]"
    by (simp add: sample_pair_completion_def)
  from stream_deltas_equal_full_text[OF ok mono0 agg dist, of sample_time] stream cs
  have 0: "py ''Hello,'' = content_deltas 0 sample_pair_chunks" by simp
  from stream_deltas_equal_full_text[OF ok mono1 agg dist, of sample_time] stream cs
  have 1: "py '','' = content_deltas 1 sample_pair_chunks" by simp
  have t: "map choice_text (completion_choices sample_pair_completion) = [py ''Hello,'', py '','']"
    by (simp add: cs)
  from agg stream t 0 1 show ?thesis by blast
qed


subsection \<open>Payloads\<close>

lemma dump_unset_omitted:
  "concat (map (\<lambda>(k, v). case v of Some j \<Rightarrow> [(k, j)] | None \<Rightarrow> if True then [] else [(k, JNull)])
     (map (\<lambda>name. (name, None)) unset)) = []"
  by (induction unset) simp_all

lemma dump_unset_null:
  "concat (map (\<lambda>(k, v). case v of Some j \<Rightarrow> [(k, j)] | None \<Rightarrow> if False then [] else [(k, JNull)])
     (map (\<lambda>name. (name, None)) unset)) = map (\<lambda>name. (name, JNull)) unset"
  by (induction unset) simp_all

lemma model_dump_json_terminal_chunk:
  "model_dump_json unset (exclude_none (terminal_chunk request rid created i delta))
     (chunk (terminal_chunk request rid created i delta)) =
   terminal_payload request rid created i delta"
  using dump_unset_omitted[of unset]
  by (simp add: terminal_chunk_def terminal_payload_def model_dump_json_def dump_fields_def
      dump_CompletionChoice_def dump_Logprobs_def empty_Logprobs_def)

lemma model_dump_json_content_chunk:
  "model_dump_json unset (exclude_none (content_chunk request rid created i delta lp))
     (chunk (content_chunk request rid created i delta lp)) =
   content_payload unset request rid created i delta lp"
  using dump_unset_null[of unset]
  by (cases lp) (simp_all add: content_chunk_def content_payload_def model_dump_json_def dump_fields_def
      dump_CompletionChoice_def)

text \<open>
  Claim C2 (as amended). Let every output of a snapshot sequence keep the engine's side of
  the contract (a choice index among \<open>0, \<dots>, n - 1\<close>, and log-probabilities with every
  chosen id among its candidates when they were requested). Then the generator runs to its
  end without an exception, and what it yields is, output by output in the order of the
  sequence, one content chunk, followed at once by a terminal chunk exactly when the output
  carries a finish reason; the terminal chunk has the index and the delta text of that
  content chunk, and as log-probabilities the empty record when they were requested and
  \<open>None\<close> otherwise. The number of terminal chunks for choice \<open>i\<close> is therefore the number of
  outputs of choice \<open>i\<close> that carry a finish reason, whatever that number is. The terminal
  chunk is serialized without its \<open>None\<close>-valued members, the content chunk with \<open>null\<close> for
  them.
\<close>

theorem stream_terminal_chunks:
  assumes ok: "\<forall>res\<in>set snaps. \<forall>output\<in>set (outputs res). stream_output_ok request output"
  shows "\<exists>ys st.
           generate_completion_stream_chunks tok request rid time snaps = (ys, Inr st) \<and>
           length (filter (terminal_for i) ys) =
             length (filter (finishes i) (concat (map outputs snaps))) \<and>
           (\<exists>blocks. ys = concat blocks \<and>
              list_all2 (output_block request rid) (concat (map outputs snaps)) blocks) \<and>
           generate_completion_stream_generator unset snaps request rid tok time =
             (map (\<lambda>y. model_dump_json unset (exclude_none y) (chunk y)) ys, None) \<and>
           model_dump_json unset (exclude_none (terminal_chunk request rid created j delta))
               (chunk (terminal_chunk request rid created j delta)) =
             terminal_payload request rid created j delta \<and>
           model_dump_json unset (exclude_none (content_chunk request rid created j delta lp))
               (chunk (content_chunk request rid created j delta lp)) =
             content_payload unset request rid created j delta lp"
proof -
  from generate_completion_stream_chunks_total[OF ok, of tok rid time] obtain ys st where
    run: "generate_completion_stream_chunks tok request rid time snaps = (ys, Inr st)" by blast
  then have so: "stream_outputs tok request rid time (initial_stream_state request)
      (concat (map outputs snaps)) = (ys, Inr st)"
    by (simp add: generate_completion_stream_chunks_def stream_results_flat)
  have 3: "generate_completion_stream_generator unset snaps request rid tok time =
           (map (\<lambda>y. model_dump_json unset (exclude_none y) (chunk y)) ys, None)"
    using run by (simp add: generate_completion_stream_generator_def)
  have 1: "length (filter (terminal_for i) ys) =
           length (filter (finishes i) (concat (map outputs snaps)))"
    by (rule stream_outputs_terminal_count[OF so])
  have 4: "\<exists>blocks. ys = concat blocks \<and>
            list_all2 (output_block request rid) (concat (map outputs snaps)) blocks"
    by (rule stream_outputs_blocks[OF so])
  have 5: "model_dump_json unset (exclude_none (terminal_chunk request rid created j delta))
             (chunk (terminal_chunk request rid created j delta)) =
           terminal_payload request rid created j delta"
    by (rule model_dump_json_terminal_chunk)
  have 6: "model_dump_json unset (exclude_none (content_chunk request rid created j delta lp))
             (chunk (content_chunk request rid created j delta lp)) =
           content_payload unset request rid created j delta lp"
    by (rule model_dump_json_content_chunk)
  show ?thesis
    by (intro exI[of _ ys] exI[of _ st] conjI) (fact run 1 3 4 5 6)+
qed


theorem stream_terminal_chunks_witness:
  "generate_completion_stream_chunks sample_tokenizer sample_pair_request sample_request_id sample_time
     [sample_pair_snapshot1, sample_pair_snapshot2] = (sample_pair_chunks, Inr sample_pair_final_state) \<and>
   length (filter (terminal_for 0) sample_pair_chunks) = 1 \<and>
   length (filter (terminal_for 1) sample_pair_chunks) = 2 \<and>
   generate_completion_stream_generator [py ''system_fingerprint'']
     [sample_pair_snapshot1, sample_pair_snapshot2] sample_pair_request sample_request_id
     sample_tokenizer sample_time =
     ([content_payload [py ''system_fingerprint''] sample_pair_request sample_request_id 1700000000 0
         (py ''Hello'')
         (Some \<lparr>text_offset = [0], token_logprobs = [-0.5], tokens = [py ''Hello''],
                 top_logprobs = [[(py ''Hello'', -0.5)]]\<rparr>),
       content_payload [py ''system_fingerprint''] sample_pair_request sample_request_id 1700000001 1
         (py '','')
         (Some \<lparr>text_offset = [0], token_logprobs = [-0.25], tokens = [py '',''],
                 top_logprobs = [[(py '','', -0.25)]]\<rparr>),
       terminal_payload sample_pair_request sample_request_id 1700000002 1 (py '',''),
       content_payload [py ''system_fingerprint''] sample_pair_request sample_request_id 1700000003 0
         (py '','')
         (Some \<lparr>text_offset = [5], token_logprobs = [-0.25], tokens = [py '',''],
                 top_logprobs = [[(py '','', -0.25)]]\<rparr>),
       terminal_payload sample_pair_request sample_request_id 1700000004 0 (py '',''),
       content_payload [py ''system_fingerprint''] sample_pair_request sample_request_id 1700000005 1
         [] (Some empty_Logprobs),
       terminal_payload sample_pair_request sample_request_id 1700000006 1 []], None)"
proof -
  note stream = sample_pair_stream
  have ok: "\<forall>res\<in>set [sample_pair_snapshot1, sample_pair_snapshot2].
              \<forall>output\<in>set (outputs res). stream_output_ok sample_pair_request output"
    by (simp add: stream_output_ok_def logprobs_present_def sample_pair_request_def
        sample_request_def sample_pair_snapshot1_def sample_pair_snapshot2_def)
  note t = stream_terminal_chunks[OF ok, where tok = sample_tokenizer and rid = sample_request_id
      and time = sample_time and unset = "[py ''system_fingerprint'']"]
  from t[where i = 0] stream
  have "length (filter (terminal_for 0) sample_pair_chunks) =
        length (filter (finishes 0)
          (concat (map outputs [sample_pair_snapshot1, sample_pair_snapshot2])))" by auto
  then have c0: "length (filter (terminal_for 0) sample_pair_chunks) = 1"
    by (simp add: finishes_def sample_pair_snapshot1_def sample_pair_snapshot2_def)
  from t[where i = 1] stream
  have "length (filter (terminal_for 1) sample_pair_chunks) =
        length (filter (finishes 1)
          (concat (map outputs [sample_pair_snapshot1, sample_pair_snapshot2])))" by auto
  then have c1: "length (filter (terminal_for 1) sample_pair_chunks) = 2"
    by (simp add: finishes_def sample_pair_snapshot1_def sample_pair_snapshot2_def)
  from t[where i = 0] stream
  have g: "generate_completion_stream_generator [py ''system_fingerprint'']
     [sample_pair_snapshot1, sample_pair_snapshot2] sample_pair_request sample_request_id
     sample_tokenizer sample_time =
     (map (\<lambda>y. model_dump_json [py ''system_fingerprint''] (exclude_none y) (chunk y))
        sample_pair_chunks, None)" by auto
  have g': "generate_completion_stream_generator [py ''system_fingerprint'']
     [sample_pair_snapshot1, sample_pair_snapshot2] sample_pair_request sample_request_id
     sample_tokenizer sample_time =
     ([content_payload [py ''system_fingerprint''] sample_pair_request sample_request_id 1700000000 0
         (py ''Hello'')
         (Some \<lparr>text_offset = [0], token_logprobs = [-0.5], tokens = [py ''Hello''],
                 top_logprobs = [[(py ''Hello'', -0.5)]]\<rparr>),
       content_payload [py ''system_fingerprint''] sample_pair_request sample_request_id 1700000001 1
         (py '','')
         (Some \<lparr>text_offset = [0], token_logprobs = [-0.25], tokens = [py '',''],
                 top_logprobs = [[(py '','', -0.25)]]\<rparr>),
       terminal_payload sample_pair_request sample_request_id 1700000002 1 (py '',''),
       content_payload [py ''system_fingerprint''] sample_pair_request sample_request_id 1700000003 0
         (py '','')
         (Some \<lparr>text_offset = [5], token_logprobs = [-0.25], tokens = [py '',''],
                 top_logprobs = [[(py '','', -0.25)]]\<rparr>),
       terminal_payload sample_pair_request sample_request_id 1700000004 0 (py '',''),
       content_payload [py ''system_fingerprint''] sample_pair_request sample_request_id 1700000005 1
         [] (Some empty_Logprobs),
       terminal_payload sample_pair_request sample_request_id 1700000006 1 []], None)"
    unfolding g
    by (simp add: sample_pair_chunks_def model_dump_json_content_chunk model_dump_json_terminal_chunk)
  from stream c0 c1 g' show ?thesis by blast
qed

text \<open>
  Claim C2 as stated fails in its first part: the generator keeps no record of the choices
  it has closed. With two choices, choice 1 finishes in the first snapshot and is carried,
  finished, by the second as well: two terminal chunks for choice 1. And a sequence that
  ends while choice 0 is still without a finish reason has no terminal chunk for it.
\<close>

theorem stream_terminal_chunks_counterexample:
  "length (filter (terminal_for 1)
     (fst (generate_completion_stream_chunks sample_tokenizer sample_pair_request sample_request_id
             sample_time [sample_pair_snapshot1, sample_pair_snapshot2]))) = 2 \<and>
   length (filter (terminal_for 0)
     (fst (generate_completion_stream_chunks sample_tokenizer sample_request sample_request_id
             sample_time [sample_snapshot1]))) = 0"
  by (simp add: sample_pair_stream sample_snapshot1_stream sample_pair_chunks_def terminal_for_def
      content_chunk_def terminal_chunk_def)

end
